theory Spec2Isabelle
  imports Main
begin

chapter \<open>The Numbas build script\<close>

text \<open>
  A model of \<^verbatim>\<open>bin/numbas.py\<close>: the resolution of the theme chain, the collection of the
  virtual file table from the overlay directories, the SCORM manifest, the merge of style
  sheets and scripts, the minifier, and the two package writers. Functions keep the names
  they have in the script. What the script reads from its surroundings (the file system,
  the exam parser, the minifier) is a parameter; what it raises is a value of type
  \<open>error\<close>; a loop or recursion that may not come to an end returns an \<open>option\<close>.
\<close>

section \<open>Path strings\<close>

text \<open>
  The program manipulates paths with Python's POSIX path library. The functions below
  restate that library on \<open>string\<close>. \<open>path_join\<close> is \<^verbatim>\<open>os.path.join\<close> for two
  components: an absolute second component replaces the first, an empty first component or
  one that already ends in a slash takes no separator.
\<close>

definition path_join :: "string \<Rightarrow> string \<Rightarrow> string" where
  "path_join a b =
     (if take 1 b = ''/'' then b
      else if a = [] \<or> last a = CHR ''/'' then a @ b
      else a @ ''/'' @ b)"

definition path_join3 :: "string \<Rightarrow> string \<Rightarrow> string \<Rightarrow> string" where
  "path_join3 a b c = path_join (path_join a b) c"

definition path_join4 :: "string \<Rightarrow> string \<Rightarrow> string \<Rightarrow> string \<Rightarrow> string" where
  "path_join4 a b c d = path_join (path_join (path_join a b) c) d"

text \<open>
  \<^verbatim>\<open>os.path.split\<close>: the tail is everything after the last slash; the head is everything
  up to and including it, with trailing slashes stripped unless the head consists of
  slashes only.
\<close>

definition rstrip_sep :: "string \<Rightarrow> string" where
  "rstrip_sep s = rev (dropWhile (\<lambda>c. c = CHR ''/'') (rev s))"

definition path_split :: "string \<Rightarrow> string \<times> string" where
  "path_split p =
     (let tail = rev (takeWhile (\<lambda>c. c \<noteq> CHR ''/'') (rev p));
          head = rev (dropWhile (\<lambda>c. c \<noteq> CHR ''/'') (rev p))
      in (if head \<noteq> [] \<and> head \<noteq> replicate (length head) (CHR ''/'')
          then rstrip_sep head else head, tail))"

definition path_dirname :: "string \<Rightarrow> string" where
  "path_dirname p = fst (path_split p)"

text \<open>
  \<^verbatim>\<open>os.path.splitext\<close>: the extension starts at the last dot of the last path segment,
  provided some character before that dot in the segment is not a dot itself (so a
  file called \<^verbatim>\<open>.js\<close> has no extension).
\<close>

definition path_splitext :: "string \<Rightarrow> string \<times> string" where
  "path_splitext p =
     (let base = rev (takeWhile (\<lambda>c. c \<noteq> CHR ''/'') (rev p)) in
      if CHR ''.'' \<in> set base then
        (let ext = CHR ''.'' # rev (takeWhile (\<lambda>c. c \<noteq> CHR ''.'') (rev base));
             stem = take (length base - length ext) base
         in if list_ex (\<lambda>c. c \<noteq> CHR ''.'') stem
            then (take (length p - length ext) p, ext)
            else (p, []))
      else (p, []))"

definition ext_of :: "string \<Rightarrow> string" where
  "ext_of p = snd (path_splitext p)"

text \<open>\<^verbatim>\<open>str.split('/')\<close> and \<^verbatim>\<open>'/'.join\<close>.\<close>

fun str_split :: "char \<Rightarrow> string \<Rightarrow> string list" where
  "str_split c [] = [[]]"
| "str_split c (x # xs) =
     (if x = c then [] # str_split c xs
      else (case str_split c xs of w # ws \<Rightarrow> (x # w) # ws | [] \<Rightarrow> [[x]]))"

fun str_join :: "string \<Rightarrow> string list \<Rightarrow> string" where
  "str_join sep [] = []"
| "str_join sep [x] = x"
| "str_join sep (x # y # ys) = x @ sep @ str_join sep (y # ys)"

text \<open>\<^verbatim>\<open>s.replace(old, new, 1)\<close>: the first occurrence of \<open>old\<close> is replaced.\<close>

fun str_replace1 :: "string \<Rightarrow> string \<Rightarrow> string \<Rightarrow> string" where
  "str_replace1 old new [] = (if old = [] then new else [])"
| "str_replace1 old new (c # cs) =
     (if take (length old) (c # cs) = old then new @ drop (length old) (c # cs)
      else c # str_replace1 old new cs)"

text \<open>
  \<^verbatim>\<open>os.path.normpath\<close>: empty and \<^verbatim>\<open>.\<close> segments are dropped, \<^verbatim>\<open>..\<close> removes the
  segment before it where there is one to remove, one or exactly two leading slashes are
  kept, and the empty result is \<^verbatim>\<open>.\<close>.
\<close>

definition initial_slashes :: "string \<Rightarrow> nat" where
  "initial_slashes p =
     (if take 1 p = ''/'' then
        (if take 2 p = ''//'' \<and> take 3 p \<noteq> ''///'' then 2 else 1)
      else 0)"

definition normpath_step :: "nat \<Rightarrow> string list \<Rightarrow> string \<Rightarrow> string list" where
  "normpath_step ini new_comps seg =
     (if seg = [] \<or> seg = ''.'' then new_comps
      else if seg \<noteq> ''..'' \<or> (ini = 0 \<and> new_comps = [])
                \<or> (new_comps \<noteq> [] \<and> last new_comps = ''..'')
        then new_comps @ [seg]
      else if new_comps \<noteq> [] then butlast new_comps
      else new_comps)"

definition path_normpath :: "string \<Rightarrow> string" where
  "path_normpath p =
     (if p = [] then ''.''
      else
        (let ini = initial_slashes p;
             comps = foldl (normpath_step ini) [] (str_split (CHR ''/'') p);
             q = replicate ini (CHR ''/'') @ str_join ''/'' comps
         in if q = [] then ''.'' else q))"


section \<open>The virtual file table\<close>

text \<open>
  A table value is either the path of a file on disk (a Python \<^verbatim>\<open>str\<close>) or generated
  text held in memory (a \<^verbatim>\<open>StringIO\<close>). The table is a Python \<^verbatim>\<open>dict\<close>, which keeps
  its keys in insertion order: it is modelled as an association list. Assigning to a key
  that is present replaces the value where it stands, assigning to a new key appends it.
\<close>

datatype content_source = OnDisk string | InMemory string

type_synonym table = "(string \<times> content_source) list"

definition dict_set :: "string \<Rightarrow> content_source \<Rightarrow> table \<Rightarrow> table" where
  "dict_set k v files =
     (if k \<in> fst ` set files
      then map (\<lambda>(k', v'). if k' = k then (k', v) else (k', v')) files
      else files @ [(k, v)])"

definition dict_del :: "string \<Rightarrow> table \<Rightarrow> table" where
  "dict_del k files = filter (\<lambda>(k', v'). k' \<noteq> k) files"

definition dict_update :: "table \<Rightarrow> table \<Rightarrow> table" where
  "dict_update other files = fold (\<lambda>(k, v). dict_set k v) other files"

section \<open>The environment of a build\<close>

text \<open>
  What the program reads from outside is a parameter of the model. \<open>walk env followlinks top\<close>
  stands for \<^verbatim>\<open>os.walk(top, followlinks=...)\<close>: one pair per directory visited, holding
  the part of the directory's path that follows \<open>top\<close> and the names of the files in it
  (\<^verbatim>\<open>os.walk\<close> yields \<open>top\<close> itself first, and every other directory path is built
  from \<open>top\<close> by joining names onto it). \<open>read_text\<close> is a file read in text mode as
  UTF-8, \<open>read_bytes\<close> the same file read in binary mode. \<open>read_lines\<close> is
  \<^verbatim>\<open>open(f).read().splitlines()\<close>. \<open>run_minifier env cmd src\<close> is the exit status
  and standard output of the external minifier \<open>cmd\<close> run on \<open>src\<close>. \<open>parse_exam\<close>
  is the parsed exam (\<open>None\<close> when the parser raises), \<open>xml2js\<close> the settings script,
  \<open>locale_script\<close> the locale script (\<open>None\<close> when a locale file cannot be loaded),
  \<open>manifest_template\<close> the parsed manifest template, \<open>manifest_tostring\<close> the XML
  serialiser and \<open>clock\<close> the time at which files are written.
\<close>

text \<open>
  A declared resource is a \<^verbatim>\<open>[name, path]\<close> list or a bare path, which stands for
  both. The exam object comes from the exam parser, which is not part of this program: the
  build uses its name, its resources and its extensions.
\<close>

datatype resource = Named string string | Bare string

record exam =
  exam_name :: string
  exam_resources :: "resource list"
  exam_extensions :: "string list"

text \<open>
  Of the SCORM manifest the build changes the identifier, the title and the children of
  the resource element: \<open>file_hrefs\<close> lists the \<^verbatim>\<open>href\<close> of each file element
  there, in document order.
\<close>

record manifest =
  manifest_identifier :: string
  manifest_title :: string
  file_hrefs :: "string list"

record env =
  cwd :: string
  isdir :: "string \<Rightarrow> bool"
  path_exists :: "string \<Rightarrow> bool"
  walk :: "bool \<Rightarrow> string \<Rightarrow> (string \<times> string list) list"
  read_text :: "string \<Rightarrow> string option"
  read_bytes :: "string \<Rightarrow> string option"
  read_lines :: "string \<Rightarrow> string list"
  run_minifier :: "string \<Rightarrow> string \<Rightarrow> int \<times> string"
  parse_exam :: "exam option"
  xml2js :: string
  locale_script :: "string option"
  manifest_template :: "manifest option"
  manifest_tostring :: "manifest \<Rightarrow> string"
  clock :: int

record options =
  path :: string
  theme :: string
  themepaths :: "string list"
  resources :: "resource list"
  extensions :: "string list"
  followlinks :: bool
  scorm :: bool
  minify :: string
  zip_opt :: bool
  action :: string
  output_path :: string

datatype error =
    ThemeNotFound string
  | SourceDocumentError
  | LocaleLoadError
  | ManifestTemplateError
  | MissingBootstrapScript
  | MinificationFailed string string
  | ReadError string
  | WriteError string

section \<open>collectFiles\<close>

text \<open>
  \<^verbatim>\<open>realFile\<close> rejects editor backup names. (Python raises on the empty name, which
  \<^verbatim>\<open>os.walk\<close> never yields.)
\<close>

definition realFile :: "string \<Rightarrow> bool" where
  "realFile file =
     (\<not> ((file \<noteq> [] \<and> last file = CHR ''~'') \<or> drop (length file - 4) file = ''.swp''))"

definition resource_pairs :: "options \<Rightarrow> (string \<times> string) list" where
  "resource_pairs opts =
     map (\<lambda>x. case x of Named name p \<Rightarrow> (name, p) | Bare p \<Rightarrow> (p, p)) (resources opts)"

text \<open>The three groups of overlays that \<^verbatim>\<open>collectFiles\<close> appends to \<open>dirs\<close>, in its order.\<close>

definition resource_dirs :: "env \<Rightarrow> options \<Rightarrow> (string \<times> string) list" where
  "resource_dirs e opts =
     map (\<lambda>(name, p). (path_join (cwd e) p, path_join ''resources'' name))
       (filter (\<lambda>(name, p). isdir e p) (resource_pairs opts))"

definition extfiles :: "env \<Rightarrow> options \<Rightarrow> (string \<times> string) list" where
  "extfiles e opts =
     map (\<lambda>x. (path_join (cwd e) x, path_join ''extensions'' (snd (path_split x))))
       (filter (isdir e) (map (\<lambda>x. path_join3 (path opts) ''extensions'' x) (extensions opts)))"

definition theme_dirs :: "options \<Rightarrow> (string \<times> string) list" where
  "theme_dirs opts = map (\<lambda>themepath. (path_join themepath ''files'', ''.'')) (themepaths opts)"

definition extended_dirs ::
  "env \<Rightarrow> options \<Rightarrow> (string \<times> string) list \<Rightarrow> (string \<times> string) list" where
  "extended_dirs e opts dirs = dirs @ resource_dirs e opts @ extfiles e opts @ theme_dirs opts"

text \<open>
  The entries one overlay \<open>(src, dst)\<close> contributes, in walk order: for the directory
  \<open>xsrc\<close> and each real file \<open>y\<close> in it, the key \<open>join(xdst, y)\<close> and the value
  \<open>join(xsrc, y)\<close>, where \<open>xdst\<close> is \<open>xsrc\<close> with the first occurrence of the
  overlay's source root replaced by its destination root.
\<close>

definition overlay_entries :: "env \<Rightarrow> options \<Rightarrow> string \<times> string \<Rightarrow> table" where
  "overlay_entries e opts d =
     (let src = path_join (path opts) (fst d); dst = snd d in
      concat (map (\<lambda>(rest, names).
                 let xsrc = src @ rest; xdst = str_replace1 src dst xsrc in
                 map (\<lambda>y. (path_join xdst y, OnDisk (path_join xsrc y))) (filter realFile names))
              (walk e (followlinks opts) src)))"

definition overlay_table :: "env \<Rightarrow> options \<Rightarrow> (string \<times> string) list \<Rightarrow> table" where
  "overlay_table e opts dirs = fold (\<lambda>d. dict_update (overlay_entries e opts d)) dirs []"

definition file_resources :: "env \<Rightarrow> options \<Rightarrow> table" where
  "file_resources e opts =
     map (\<lambda>(name, p). (path_join ''resources'' name, OnDisk (path_join (path opts) p)))
       (filter (\<lambda>(name, p). \<not> isdir e p) (resource_pairs opts))"

text \<open>
  \<^verbatim>\<open>collectFiles(options, dirs)\<close> appends to the list object \<open>dirs\<close> it is given, so the
  model returns the list as the call leaves it together with the table.
\<close>

definition collectFiles ::
  "env \<Rightarrow> options \<Rightarrow> (string \<times> string) list \<Rightarrow> table \<times> (string \<times> string) list" where
  "collectFiles e opts dirs =
     (let dirs' = extended_dirs e opts dirs in
      (dict_update (file_resources e opts) (overlay_table e opts dirs'), dirs'))"

text \<open>
  The default value of \<open>dirs\<close> is one list object, created when the function is defined
  and shared by every call that leaves \<open>dirs\<close> out. It is the only module-level state the
  calls share.
\<close>

record module_state =
  default_dirs :: "(string \<times> string) list"

definition initial_module_state :: module_state where
  "initial_module_state = \<lparr>default_dirs = [(''runtime'', ''.'')]\<rparr>"

definition collectFiles_default :: "env \<Rightarrow> options \<Rightarrow> module_state \<Rightarrow> table \<times> module_state" where
  "collectFiles_default e opts ms =
     (let (files, dirs') = collectFiles e opts (default_dirs ms) in
      (files, ms\<lparr>default_dirs := dirs'\<rparr>))"

section \<open>Theme chain resolution\<close>

definition get_theme_path :: "env \<Rightarrow> options \<Rightarrow> string \<Rightarrow> error + string" where
  "get_theme_path e opts t =
     (if path_exists e t then Inr t
      else (let ntheme = path_join3 (path opts) ''themes'' t in
            if path_exists e ntheme then Inr ntheme else Inl (ThemeNotFound t)))"

text \<open>
  The loop of \<^verbatim>\<open>run\<close> walks \<open>themepaths\<close> by index while it appends to it, so it sees
  the themes it has added. Nothing stops a theme from inheriting from itself: the loop may
  run forever, which is the value \<open>None\<close>.
\<close>

partial_function (option) theme_loop ::
  "env \<Rightarrow> options \<Rightarrow> string list \<Rightarrow> nat \<Rightarrow> (error + string list) option" where
  "theme_loop e opts tps i =
     (if i < length tps then
        (case get_theme_path e opts (tps ! i) of
           Inl err \<Rightarrow> Some (Inl err)
         | Inr t \<Rightarrow>
             theme_loop e opts
               (if path_exists e (path_join t ''inherit.txt'')
                then tps[i := t] @ read_lines e (path_join t ''inherit.txt'')
                else tps[i := t])
               (Suc i))
      else Some (Inr tps))"

definition resolve_themepaths :: "env \<Rightarrow> options \<Rightarrow> (error + string list) option" where
  "resolve_themepaths e opts =
     map_option (map_sum id rev) (theme_loop e opts [theme opts] 0)"

declare theme_loop.simps [code]


section \<open>makeExam: generated content, manifest, merged assets, minifier\<close>

definition newline :: string where
  "newline = [CHR 0x0A]"

definition read_source :: "env \<Rightarrow> content_source \<Rightarrow> error + string" where
  "read_source e src =
     (case src of
        OnDisk p \<Rightarrow> (case read_text e p of None \<Rightarrow> Inl (ReadError p) | Some t \<Rightarrow> Inr t)
      | InMemory t \<Rightarrow> Inr t)"

fun read_all :: "env \<Rightarrow> content_source list \<Rightarrow> error + string list" where
  "read_all e [] = Inr []"
| "read_all e (src # srcs) =
     (case read_source e src of
        Inl err \<Rightarrow> Inl err
      | Inr t \<Rightarrow> (case read_all e srcs of Inl err \<Rightarrow> Inl err | Inr ts \<Rightarrow> Inr (t # ts)))"

text \<open>
  \<^verbatim>\<open>to_relative_url\<close> normalises the path and takes it apart from the right until the
  head is empty. The head of an absolute path never becomes empty.
\<close>

partial_function (option) to_relative_url_loop ::
  "string \<Rightarrow> string \<Rightarrow> string list \<Rightarrow> string list option" where
  "to_relative_url_loop head tail bits =
     (if head \<noteq> []
      then to_relative_url_loop (fst (path_split head)) (snd (path_split head)) (tail # bits)
      else Some (tail # bits))"

declare to_relative_url_loop.simps [code]

definition to_relative_url :: "string \<Rightarrow> string option" where
  "to_relative_url p =
     map_option (str_join ''/'')
       (to_relative_url_loop (fst (path_split (path_normpath p)))
          (snd (path_split (path_normpath p))) [])"

text \<open>
  The SCORM branch: the manifest is patched from the keys the table has at that moment,
  then the SCORM support files are collected onto the table and the serialised manifest is
  added.
\<close>

definition add_scorm ::
  "env \<Rightarrow> options \<Rightarrow> exam \<Rightarrow> table \<Rightarrow> (error + table \<times> manifest) option" where
  "add_scorm e opts ex files =
     (case manifest_template e of
        None \<Rightarrow> Some (Inl ManifestTemplateError)
      | Some m \<Rightarrow>
          (case those (map (\<lambda>x. to_relative_url (fst x)) files) of
             None \<Rightarrow> None
           | Some resource_files \<Rightarrow>
               (let m' = m\<lparr>manifest_identifier := ''Numbas: '' @ exam_name ex,
                           manifest_title := exam_name ex,
                           file_hrefs := file_hrefs m @ resource_files\<rparr>;
                    files' = dict_update (fst (collectFiles e opts [(''scormfiles'', ''.'')])) files
                in Some (Inr (dict_set (path_join ''.'' ''imsmanifest.xml'')
                                (InMemory (manifest_tostring e m')) files', m')))))"

definition merge_stylesheets :: "env \<Rightarrow> table \<Rightarrow> error + table" where
  "merge_stylesheets e files =
     (let stylesheets = filter (\<lambda>(dst, src). ext_of dst = ''.css'') files;
          files' = fold (\<lambda>(dst, src). dict_del dst) stylesheets files
      in case read_all e (map snd stylesheets) of
           Inl err \<Rightarrow> Inl err
         | Inr texts \<Rightarrow>
             Inr (dict_set (path_join ''.'' ''styles.css'')
                    (InMemory (str_join newline texts)) files'))"

definition numbas_loader_path :: "options \<Rightarrow> string" where
  "numbas_loader_path opts = path_join4 (path opts) ''runtime'' ''scripts'' ''numbas.js''"

text \<open>
  \<^verbatim>\<open>javascripts.remove(numbas_loader_path)\<close> removes the first element equal to that
  string and raises when there is none; an in-memory value is never equal to a string.
\<close>

definition merge_javascripts :: "env \<Rightarrow> options \<Rightarrow> table \<Rightarrow> error + table" where
  "merge_javascripts e opts files =
     (let javascripts = filter (\<lambda>(dst, src). ext_of dst = ''.js'') files;
          files' = fold (\<lambda>(dst, src). dict_del dst) javascripts files;
          srcs = map snd javascripts
      in if OnDisk (numbas_loader_path opts) \<notin> set srcs then Inl MissingBootstrapScript
         else
           (case read_all e (OnDisk (numbas_loader_path opts)
                               # remove1 (OnDisk (numbas_loader_path opts)) srcs) of
              Inl err \<Rightarrow> Inl err
            | Inr texts \<Rightarrow>
                Inr (dict_set (path_join ''.'' ''scripts.js'')
                       (InMemory (str_join newline texts)) files')))"

fun minify_loop :: "env \<Rightarrow> options \<Rightarrow> table \<Rightarrow> table \<Rightarrow> error + table" where
  "minify_loop e opts [] files = Inr files"
| "minify_loop e opts ((dst, OnDisk src) # items) files =
     (if ext_of dst = ''.js'' then
        (if fst (run_minifier e (minify opts) src) \<noteq> 0
         then Inl (MinificationFailed src (minify opts))
         else minify_loop e opts items
                (dict_set dst (InMemory (snd (run_minifier e (minify opts) src))) files))
      else minify_loop e opts items files)"
| "minify_loop e opts ((dst, InMemory t) # items) files = minify_loop e opts items files"

definition minify_files :: "env \<Rightarrow> options \<Rightarrow> table \<Rightarrow> error + table" where
  "minify_files e opts files =
     (if minify opts \<noteq> [] then minify_loop e opts files files else Inr files)"

definition aggregate :: "env \<Rightarrow> options \<Rightarrow> table \<Rightarrow> error + table" where
  "aggregate e opts files =
     (case merge_stylesheets e files of
        Inl err \<Rightarrow> Inl err
      | Inr files1 \<Rightarrow> merge_javascripts e opts files1)"

text \<open>
  The table as \<^verbatim>\<open>makeExam\<close> hands it to the package writer, with the patched manifest
  when there is one. \<open>None\<close> is a build that does not return.
\<close>

definition inject_generated :: "env \<Rightarrow> string \<Rightarrow> table \<Rightarrow> table" where
  "inject_generated e locale_js files =
     dict_set (path_join ''.'' ''locale.js'') (InMemory locale_js)
       (dict_set (path_join ''.'' ''settings.js'') (InMemory (xml2js e)) files)"

definition finish_files ::
  "env \<Rightarrow> options \<Rightarrow> table \<times> manifest option \<Rightarrow> error + table \<times> manifest option" where
  "finish_files e opts fm =
     (case aggregate e opts (fst fm) of
        Inl err \<Rightarrow> Inl err
      | Inr files2 \<Rightarrow>
          (case minify_files e opts files2 of
             Inl err \<Rightarrow> Inl err
           | Inr files3 \<Rightarrow> Inr (files3, snd fm)))"

definition makeExam_files ::
  "env \<Rightarrow> options \<Rightarrow> module_state \<Rightarrow> (error + table \<times> manifest option) option" where
  "makeExam_files e opts0 ms =
     (case parse_exam e of
        None \<Rightarrow> Some (Inl SourceDocumentError)
      | Some ex \<Rightarrow>
          (let opts = opts0\<lparr>resources := exam_resources ex, extensions := exam_extensions ex\<rparr>;
               files = fst (collectFiles_default e opts ms)
           in case locale_script e of
                None \<Rightarrow> Some (Inl LocaleLoadError)
              | Some locale_js \<Rightarrow>
                  (if scorm opts then
                     (case add_scorm e opts ex (inject_generated e locale_js files) of
                        None \<Rightarrow> None
                      | Some (Inl err) \<Rightarrow> Some (Inl err)
                      | Some (Inr (files1, m)) \<Rightarrow> Some (finish_files e opts (files1, Some m)))
                   else Some (finish_files e opts (inject_generated e locale_js files, None)))))"

section \<open>The package writers\<close>

text \<open>
  \<^verbatim>\<open>cleanpath\<close> of the archive writer recurses on the directory part. On an absolute
  path the directory part stays \<^verbatim>\<open>/\<close> and the recursion does not end by itself
  (Python stops it with a \<^verbatim>\<open>RecursionError\<close>): no name is returned, the value \<open>None\<close>.
\<close>

partial_function (option) cleanpath :: "string \<Rightarrow> string option" where
  "cleanpath p =
     (if p = [] then Some []
      else Option.bind (cleanpath (fst (path_split p)))
             (\<lambda>dirname. Some (if snd (path_split p) \<noteq> ''.''
                              then path_join dirname (snd (path_split p)) else dirname)))"

declare cleanpath.simps [code]

record zip_info =
  filename :: string
  external_attr :: nat
  data :: string

text \<open>
  The archive writer reads a file-backed entry in binary mode (\<^verbatim>\<open>open(src,'rb')\<close>), the
  merges read in text mode: two reads of the environment.
\<close>

definition read_binary :: "env \<Rightarrow> content_source \<Rightarrow> error + string" where
  "read_binary e src =
     (case src of
        OnDisk p \<Rightarrow> (case read_bytes e p of None \<Rightarrow> Inl (ReadError p) | Some b \<Rightarrow> Inr b)
      | InMemory t \<Rightarrow> Inr t)"

fun compileToZip :: "env \<Rightarrow> table \<Rightarrow> (error + zip_info list) option" where
  "compileToZip e [] = Some (Inr [])"
| "compileToZip e ((dst, src) # items) =
     (case cleanpath dst of
        None \<Rightarrow> None
      | Some name \<Rightarrow>
          (case read_binary e src of
             Inl err \<Rightarrow> Some (Inl err)
           | Inr bytes \<Rightarrow>
               (case compileToZip e items of
                  None \<Rightarrow> None
                | Some (Inl err) \<Rightarrow> Some (Inl err)
                | Some (Inr entries) \<Rightarrow>
                    Some (Inr (\<lparr>filename = name, external_attr = 420 * 65536, data = bytes\<rparr>
                               # entries)))))"

text \<open>
  The directory writer works on a file system: a map from path strings to files (content
  and modification time) and directories (modification time). Times are integers; a file
  that is written gets the time \<open>now\<close>. Paths are taken as they are written: the map
  does not know that \<^verbatim>\<open>out/./a\<close> and \<^verbatim>\<open>out/a\<close> name one file, so it says nothing
  about a table that holds two spellings of one destination. What is proved of the
  directory writer is about the loop body on one table entry.
\<close>

datatype node = FileNode string int | DirNode int

type_synonym fs_state = "string \<Rightarrow> node option"

definition getmtime :: "fs_state \<Rightarrow> string \<Rightarrow> int option" where
  "getmtime st p =
     (case st p of None \<Rightarrow> None | Some (FileNode c t) \<Rightarrow> Some t | Some (DirNode t) \<Rightarrow> Some t)"

definition is_dir_node :: "fs_state \<Rightarrow> string \<Rightarrow> bool" where
  "is_dir_node st p = (case st p of Some (DirNode t) \<Rightarrow> True | _ \<Rightarrow> False)"

definition parent_ok :: "fs_state \<Rightarrow> string \<Rightarrow> bool" where
  "parent_ok st p = (path_dirname p = [] \<or> is_dir_node st (path_dirname p))"

text \<open>\<^verbatim>\<open>os.mkdir\<close> inside \<^verbatim>\<open>try ... except OSError: pass\<close>: a failure changes nothing.\<close>

definition mkdir :: "int \<Rightarrow> fs_state \<Rightarrow> string \<Rightarrow> fs_state" where
  "mkdir now st d = (if st d \<noteq> None \<or> \<not> parent_ok st d then st else st(d \<mapsto> DirNode now))"

definition rmtree :: "fs_state \<Rightarrow> string \<Rightarrow> fs_state" where
  "rmtree st root =
     (if is_dir_node st root
      then (\<lambda>p. if p = root \<or> take (Suc (length root)) p = root @ ''/'' then None else st p)
      else st)"

text \<open>
  \<^verbatim>\<open>makepath\<close> creates the missing directories above a path, outermost first. Where no
  directory above the path exists, not even the top one, it calls itself on the empty path
  again and again: \<open>None\<close>.
\<close>

partial_function (option) makepath :: "int \<Rightarrow> fs_state \<Rightarrow> string \<Rightarrow> fs_state option" where
  "makepath now st p =
     (if st (path_dirname p) = None
      then Option.bind (makepath now st (path_dirname p))
             (\<lambda>st'. Some (mkdir now st' (path_dirname p)))
      else Some st)"

declare makepath.simps [code]

definition copyfile :: "int \<Rightarrow> fs_state \<Rightarrow> string \<Rightarrow> string \<Rightarrow> error + fs_state" where
  "copyfile now st src dst =
     (case st src of
        Some (FileNode c t) \<Rightarrow>
          (if src = dst \<or> is_dir_node st dst \<or> \<not> parent_ok st dst then Inl (WriteError dst)
           else Inr (st(dst \<mapsto> FileNode c now)))
      | _ \<Rightarrow> Inl (ReadError src))"

definition write_text :: "int \<Rightarrow> fs_state \<Rightarrow> string \<Rightarrow> string \<Rightarrow> error + fs_state" where
  "write_text now st dst text =
     (if is_dir_node st dst \<or> \<not> parent_ok st dst then Inl (WriteError dst)
      else Inr (st(dst \<mapsto> FileNode text now)))"

text \<open>The body of the loop of \<^verbatim>\<open>compileToDir\<close>, for one table entry.\<close>

definition write_entry ::
  "int \<Rightarrow> options \<Rightarrow> fs_state \<Rightarrow> string \<times> content_source \<Rightarrow> (error + fs_state) option" where
  "write_entry now opts st ent =
     (let dst = path_join (output_path opts) (fst ent) in
      case makepath now st dst of
        None \<Rightarrow> None
      | Some st1 \<Rightarrow>
          Some (case snd ent of
                  OnDisk src \<Rightarrow>
                    (if action opts = ''clean'' \<or> st1 dst = None then copyfile now st1 src dst
                     else (case getmtime st1 src of
                             None \<Rightarrow> Inl (ReadError src)
                           | Some ts \<Rightarrow>
                               (case getmtime st1 dst of
                                  None \<Rightarrow> Inl (WriteError dst)
                                | Some td \<Rightarrow>
                                    if ts > td then copyfile now st1 src dst else Inr st1)))
                | InMemory text \<Rightarrow> write_text now st1 dst text))"

fun write_entries ::
  "int \<Rightarrow> options \<Rightarrow> table \<Rightarrow> fs_state \<Rightarrow> (error + fs_state) option" where
  "write_entries now opts [] st = Some (Inr st)"
| "write_entries now opts (ent # items) st =
     (case write_entry now opts st ent of
        None \<Rightarrow> None
      | Some (Inl err) \<Rightarrow> Some (Inl err)
      | Some (Inr st') \<Rightarrow> write_entries now opts items st')"

definition compileToDir ::
  "int \<Rightarrow> options \<Rightarrow> table \<Rightarrow> fs_state \<Rightarrow> (error + fs_state) option" where
  "compileToDir now opts files st =
     (let st0 = (if action opts = ''clean'' then rmtree st (output_path opts) else st)
      in write_entries now opts files (mkdir now st0 (output_path opts)))"

datatype package = Archive "zip_info list" | Directory fs_state

definition makeExam ::
  "env \<Rightarrow> options \<Rightarrow> module_state \<Rightarrow> fs_state \<Rightarrow> (error + package) option" where
  "makeExam e opts ms st =
     (case makeExam_files e opts ms of
        None \<Rightarrow> None
      | Some (Inl err) \<Rightarrow> Some (Inl err)
      | Some (Inr (files, m)) \<Rightarrow>
          (if zip_opt opts
           then map_option (map_sum id Archive) (compileToZip e files)
           else map_option (map_sum id Directory) (compileToDir (clock e) opts files st)))"


section \<open>A small installation, for concrete runs\<close>

text \<open>
  The program files are under \<^verbatim>\<open>/n\<close> and the build runs in \<^verbatim>\<open>/w\<close>. The runtime has
  a page and two scripts; the theme \<^verbatim>\<open>R\<close> inherits from \<^verbatim>\<open>A\<close> and \<^verbatim>\<open>B\<close>, in this
  order, and all three themes bring their own page; the theme \<^verbatim>\<open>T\<close> brings its own
  \<^verbatim>\<open>scripts/numbas.js\<close>, the theme \<^verbatim>\<open>U\<close> a file \<^verbatim>\<open>resources/pics/cat.png\<close>; there is
  one extension and one resource directory. The minifier always fails.
\<close>

definition demo_walk :: "string \<Rightarrow> (string \<times> string list) list" where
  "demo_walk root =
     (if root = ''/n/runtime'' then [([], [''index.html'']), (''/scripts'', [''jme.js'', ''numbas.js''])]
      else if root = ''/n/themes/R/files'' then [([], [''index.html'', ''style.css''])]
      else if root = ''/n/themes/A/files'' then [([], [''index.html'', ''a.css''])]
      else if root = ''/n/themes/B/files'' then [([], [''index.html''])]
      else if root = ''/n/extensions/geo'' then [([], [''geo.js''])]
      else if root = ''/w/pics'' then [([], [''cat.png''])]
      else if root = ''/n/scormfiles'' then [([], [''api.js''])]
      else if root = ''/n/themes/T/files'' then [(''/scripts'', [''numbas.js''])]
      else if root = ''/n/themes/U/files'' then [(''/resources/pics'', [''cat.png''])]
      else [])"

definition demo_exam :: exam where
  "demo_exam = \<lparr>exam_name = ''Quiz 1'', exam_resources = [Bare ''pics''],
                 exam_extensions = [''geo'']\<rparr>"

definition demo_manifest :: manifest where
  "demo_manifest = \<lparr>manifest_identifier = ''template'', manifest_title = ''template'',
                     file_hrefs = []\<rparr>"

definition demo_env :: env where
  "demo_env =
     \<lparr>cwd = ''/w'',
      isdir = (\<lambda>p. p = ''pics'' \<or> p = ''/n/extensions/geo''),
      path_exists = (\<lambda>p. p = ''/n/themes/R'' \<or> p = ''/n/themes/R/inherit.txt''
                          \<or> p = ''/n/themes/A'' \<or> p = ''/n/themes/B''),
      walk = (\<lambda>fl. demo_walk),
      read_text = (\<lambda>p. Some (''<'' @ p @ ''>'')),
      read_bytes = (\<lambda>p. Some (''<'' @ p @ ''>'')),
      read_lines = (\<lambda>p. if p = ''/n/themes/R/inherit.txt'' then [''A'', ''B''] else []),
      run_minifier = (\<lambda>cmd src. (1, [])),
      parse_exam = Some demo_exam,
      xml2js = ''settings'',
      locale_script = Some ''locale'',
      manifest_template = Some demo_manifest,
      manifest_tostring = (\<lambda>m. str_join '','' (file_hrefs m)),
      clock = 100\<rparr>"

definition demo_options :: options where
  "demo_options =
     \<lparr>path = ''/n'', theme = ''R'',
      themepaths = [''/n/themes/B'', ''/n/themes/A'', ''/n/themes/R''],
      resources = [Bare ''pics''], extensions = [''geo''],
      followlinks = False, scorm = False, minify = ''/bin/false'', zip_opt = True,
      action = ''update'', output_path = ''out.zip''\<rparr>"

section \<open>Notions the claims use\<close>

text \<open>
  The segments of a path that are neither empty nor \<^verbatim>\<open>.\<close>: two paths differ only in
  empty and \<^verbatim>\<open>.\<close> segments when these lists are equal.
\<close>

definition segments :: "string \<Rightarrow> string list" where
  "segments p = filter (\<lambda>s. s \<noteq> [] \<and> s \<noteq> ''.'') (str_split (CHR ''/'') p)"

text \<open>A relative path that does not end in a slash.\<close>

definition relative_file_path :: "string \<Rightarrow> bool" where
  "relative_file_path p = (take 1 p \<noteq> ''/'' \<and> (p = [] \<or> last p \<noteq> CHR ''/''))"

text \<open>The sources of the script entries of a table, in table order.\<close>

definition script_sources :: "table \<Rightarrow> content_source list" where
  "script_sources files = map snd (filter (\<lambda>(dst, src). ext_of dst = ''.js'') files)"

text \<open>The key under which the runtime overlay puts the bootstrap loader.\<close>

definition bootstrap_dst :: string where
  "bootstrap_dst = ''./scripts/numbas.js''"

text \<open>A table of the small installation, as it stands before the assets are merged.\<close>

definition demo_table :: table where
  "demo_table =
     [(''./index.html'', OnDisk ''/n/themes/R/files/index.html''),
      (''./scripts/jme.js'', OnDisk ''/n/runtime/scripts/jme.js''),
      (''./scripts/numbas.js'', OnDisk ''/n/runtime/scripts/numbas.js''),
      (''./style.css'', OnDisk ''/n/themes/R/files/style.css''),
      (''./settings.js'', InMemory ''settings'')]"

text \<open>The same build with the theme \<^verbatim>\<open>T\<close> alone.\<close>

definition override_options :: options where
  "override_options = demo_options\<lparr>theme := ''T'', themepaths := [''/n/themes/T'']\<rparr>"

text \<open>The same build with the theme \<^verbatim>\<open>U\<close> alone.\<close>

definition respell_options :: options where
  "respell_options = demo_options\<lparr>theme := ''U'', themepaths := [''/n/themes/U'']\<rparr>"

text \<open>
  The build with the theme \<^verbatim>\<open>T\<close> of an exam that also declares the runtime's loader
  as a file-valued resource named \<^verbatim>\<open>boot.js\<close>.
\<close>

definition twice_exam :: exam where
  "twice_exam = demo_exam\<lparr>exam_resources :=
                   [Bare ''pics'', Named ''boot.js'' ''runtime/scripts/numbas.js'']\<rparr>"

definition twice_env :: env where
  "twice_env = demo_env\<lparr>parse_exam := Some twice_exam\<rparr>"

definition twice_options :: options where
  "twice_options = override_options\<lparr>resources := exam_resources twice_exam\<rparr>"

text \<open>The merged style sheet and the merged script of the small installation.\<close>

definition demo_css :: string where
  "demo_css = ''</n/themes/A/files/a.css>'' @ newline @ ''</n/themes/R/files/style.css>''"

definition demo_js :: string where
  "demo_js = ''</n/runtime/scripts/numbas.js>'' @ newline @ ''</n/runtime/scripts/jme.js>''
         @ newline @ ''</n/extensions/geo/geo.js>'' @ newline @ ''settings'' @ newline @ ''locale''"

text \<open>
  \<open>extends_with_dirs st st'\<close>: the file system \<open>st'\<close> is \<open>st\<close> with some new
  directories.
\<close>

definition extends_with_dirs :: "fs_state \<Rightarrow> fs_state \<Rightarrow> bool" where
  "extends_with_dirs st st' =
     (\<forall>q. st' q = st q \<or> (st q = None \<and> (\<exists>t. st' q = Some (DirNode t))))"

text \<open>
  An output directory that holds \<^verbatim>\<open>a.txt\<close>, written at time 50, and its source, once
  older and once newer than that.
\<close>

definition dir_options :: options where
  "dir_options = demo_options\<lparr>zip_opt := False, output_path := ''out''\<rparr>"

definition demo_fs :: "int \<Rightarrow> fs_state" where
  "demo_fs t = [''out'' \<mapsto> DirNode 1, ''out/a.txt'' \<mapsto> FileNode ''old'' 50,
                ''src/a.txt'' \<mapsto> FileNode ''new'' t]"

text \<open>Path segments as \<^verbatim>\<open>normpath\<close> keeps them: not empty and without a slash.\<close>

definition good_segments :: "string list \<Rightarrow> bool" where
  "good_segments xs = (\<forall>w \<in> set xs. w \<noteq> [] \<and> CHR ''/'' \<notin> set w)"

text \<open>The build of the small installation as a SCORM package, and what it produces.\<close>

definition scorm_options :: options where
  "scorm_options = demo_options\<lparr>scorm := True\<rparr>"

definition demo_scorm_manifest :: manifest where
  "demo_scorm_manifest =
     \<lparr>manifest_identifier = ''Numbas: Quiz 1'', manifest_title = ''Quiz 1'',
      file_hrefs = [''index.html'', ''scripts/jme.js'', ''scripts/numbas.js'',
                    ''resources/pics/cat.png'', ''extensions/geo/geo.js'', ''a.css'',
                    ''style.css'', ''settings.js'', ''locale.js'']\<rparr>"

definition demo_scorm_js :: string where
  "demo_scorm_js = demo_js @ newline @ ''</n/scormfiles/api.js>''"

definition demo_scorm_files :: table where
  "demo_scorm_files =
     [(''./index.html'', OnDisk ''/n/themes/R/files/index.html''),
      (''resources/pics/cat.png'', OnDisk ''/w/pics/cat.png''),
      (''./imsmanifest.xml'', InMemory (manifest_tostring demo_env demo_scorm_manifest)),
      (''./styles.css'', InMemory demo_css),
      (''./scripts.js'', InMemory demo_scorm_js)]"

text \<open>
  The priority order of the overlays in the words of the specification: the runtime root,
  then the extension roots in declaration order, then the theme chain, then the resource
  directories. (\<^verbatim>\<open>collectFiles\<close> itself appends the resource directories before the
  extension roots, see \<open>extended_dirs\<close>.)
\<close>

definition priority_order :: "env \<Rightarrow> options \<Rightarrow> (string \<times> string) list" where
  "priority_order e opts =
     (''runtime'', ''.'') # extfiles e opts @ theme_dirs opts @ resource_dirs e opts"

text \<open>
  What \<^verbatim>\<open>os.walk\<close> guarantees: the path of a directory below the root continues the
  root with names joined on, so what follows the root is empty or does not end in a slash,
  and a file name is not empty and has no slash.
\<close>

definition wf_walk :: "env \<Rightarrow> bool" where
  "wf_walk e =
     (\<forall>fl root. \<forall>(rest, names) \<in> set (walk e fl root).
        (rest = [] \<or> last rest \<noteq> CHR ''/'')
        \<and> (\<forall>y \<in> set names. y \<noteq> [] \<and> CHR ''/'' \<notin> set y))"

text \<open>The table one overlay gives on its own: within it, too, the last write wins.\<close>

definition overlay_map :: "env \<Rightarrow> options \<Rightarrow> string \<times> string \<Rightarrow> string \<Rightarrow> content_source option" where
  "overlay_map e opts d = map_of (rev (overlay_entries e opts d))"

section \<open>Theme chain resolution: properties\<close>

lemma theme_loop_done: "length tps \<le> i \<Longrightarrow> theme_loop e opts tps i = Some (Inr tps)"
  by (subst theme_loop.simps) simp

lemma theme_loop_step_inherit:
  assumes "i < length tps" and "get_theme_path e opts (tps ! i) = Inr t"
    and "path_exists e (path_join t ''inherit.txt'')"
  shows "theme_loop e opts tps i =
         theme_loop e opts (tps[i := t] @ read_lines e (path_join t ''inherit.txt'')) (Suc i)"
  using assms by (subst theme_loop.simps) simp

lemma theme_loop_step_plain:
  assumes "i < length tps" and "get_theme_path e opts (tps ! i) = Inr t"
    and "\<not> path_exists e (path_join t ''inherit.txt'')"
  shows "theme_loop e opts tps i = theme_loop e opts (tps[i := t]) (Suc i)"
  using assms by (subst theme_loop.simps) simp

text \<open>
  Claim C2, as the code has it. When the requested theme resolves to \<open>r\<close>, its
  \<^verbatim>\<open>inherit.txt\<close> lists \<open>a\<close> then \<open>b\<close>, and these resolve to \<open>a'\<close> and \<open>b'\<close>, which
  have no \<^verbatim>\<open>inherit.txt\<close>, the loop ends and the chain is \<open>[b', a', r]\<close>: the requested
  theme is last, and the ancestors come in the reverse of their declaration order, since
  the whole list is reversed.
\<close>

theorem theme_chain_two_ancestors:
  assumes r: "get_theme_path e opts (theme opts) = Inr r"
    and inh: "path_exists e (path_join r ''inherit.txt'')"
    and ls: "read_lines e (path_join r ''inherit.txt'') = [a, b]"
    and a: "get_theme_path e opts a = Inr a'"
    and a_plain: "\<not> path_exists e (path_join a' ''inherit.txt'')"
    and b: "get_theme_path e opts b = Inr b'"
    and b_plain: "\<not> path_exists e (path_join b' ''inherit.txt'')"
  shows "resolve_themepaths e opts = Some (Inr [b', a', r])"
proof -
  have "theme_loop e opts [theme opts] 0 = theme_loop e opts [r, a, b] 1"
    using theme_loop_step_inherit [of 0 "[theme opts]" e opts r] r inh ls by simp
  also have "\<dots> = theme_loop e opts [r, a', b] 2"
    using theme_loop_step_plain [of 1 "[r, a, b]" e opts a'] a a_plain
    by (simp add: numeral_2_eq_2)
  also have "\<dots> = theme_loop e opts [r, a', b'] 3"
    using theme_loop_step_plain [of 2 "[r, a', b]" e opts b'] b b_plain
    by (simp add: numeral_3_eq_3 numeral_2_eq_2)
  also have "\<dots> = Some (Inr [r, a', b'])"
    by (rule theme_loop_done) simp
  finally show ?thesis
    by (simp add: resolve_themepaths_def)
qed

lemma demo_get_theme_path:
  "get_theme_path demo_env demo_options ''R'' = Inr ''/n/themes/R''"
  "get_theme_path demo_env demo_options ''A'' = Inr ''/n/themes/A''"
  "get_theme_path demo_env demo_options ''B'' = Inr ''/n/themes/B''"
  by (simp_all add: get_theme_path_def demo_env_def demo_options_def path_join3_def path_join_def)

theorem theme_chain_two_ancestors_witness:
  "resolve_themepaths demo_env demo_options
     = Some (Inr [''/n/themes/B'', ''/n/themes/A'', ''/n/themes/R''])"
proof -
  have "theme opts = ''R''" if "opts = demo_options" for opts
    using that by (simp add: demo_options_def)
  then have t: "theme demo_options = ''R''" by simp
  show ?thesis
    by (rule theme_chain_two_ancestors [where a = "''A''" and b = "''B''"])
       (simp_all add: t demo_get_theme_path, simp_all add: demo_env_def path_join_def)
qed

text \<open>
  Claim C2 as it is written asks for \<open>[A, B, requested]\<close>. In the small installation,
  where \<^verbatim>\<open>R\<close> declares \<^verbatim>\<open>A\<close> then \<^verbatim>\<open>B\<close>, the chain is not that list.
\<close>

theorem theme_chain_declaration_order_counterexample:
  "resolve_themepaths demo_env demo_options
     \<noteq> Some (Inr [''/n/themes/A'', ''/n/themes/B'', ''/n/themes/R''])"
proof -
  have "theme demo_options = ''R''" by (simp add: demo_options_def)
  then have "theme_loop demo_env demo_options [theme demo_options] 0
        = theme_loop demo_env demo_options [''/n/themes/R'', ''A'', ''B''] 1"
    using theme_loop_step_inherit [of 0 "[''R'']" demo_env demo_options "''/n/themes/R''"]
    by (simp add: demo_get_theme_path) (simp add: demo_env_def path_join_def)
  also have "\<dots> = theme_loop demo_env demo_options [''/n/themes/R'', ''/n/themes/A'', ''B''] 2"
    using theme_loop_step_plain [of 1 "[''/n/themes/R'', ''A'', ''B'']" demo_env demo_options
        "''/n/themes/A''"]
    by (simp add: demo_get_theme_path numeral_2_eq_2) (simp add: demo_env_def path_join_def)
  also have "\<dots> = theme_loop demo_env demo_options
                    [''/n/themes/R'', ''/n/themes/A'', ''/n/themes/B''] 3"
    using theme_loop_step_plain [of 2 "[''/n/themes/R'', ''/n/themes/A'', ''B'']" demo_env
        demo_options "''/n/themes/B''"]
    by (simp add: demo_get_theme_path numeral_3_eq_3 numeral_2_eq_2)
       (simp add: demo_env_def path_join_def)
  also have "\<dots> = Some (Inr [''/n/themes/R'', ''/n/themes/A'', ''/n/themes/B''])"
    by (rule theme_loop_done) simp
  finally show ?thesis
    by (simp add: resolve_themepaths_def)
qed


section \<open>Archive entry names: properties of cleanpath\<close>

lemma str_split_nonempty: "str_split c s \<noteq> []"
  by (induction s) (auto split: list.splits)

lemma str_split_no_sep: "c \<notin> set s \<Longrightarrow> str_split c s = [s]"
  by (induction s) auto

lemma str_split_append_sep: "str_split c (a @ c # b) = str_split c a @ str_split c b"
proof (induction a)
  case Nil
  show ?case using str_split_nonempty [of c "[]"] by simp
next
  case (Cons x a)
  show ?case
  proof (cases "x = c")
    case True
    with Cons show ?thesis by simp
  next
    case False
    obtain w ws where "str_split c a = w # ws"
      using str_split_nonempty [of c a] by (cases "str_split c a") auto
    with False Cons show ?thesis by simp
  qed
qed

lemma str_split_elems: "w \<in> set (str_split c s) \<Longrightarrow> c \<notin> set w"
proof (induction s arbitrary: w)
  case Nil
  then show ?case by simp
next
  case (Cons x s)
  show ?case
  proof (cases "x = c")
    case True
    with Cons show ?thesis by auto
  next
    case False
    obtain v vs where vs: "str_split c s = v # vs"
      using str_split_nonempty [of c s] by (cases "str_split c s") auto
    with False Cons.prems have "w = x # v \<or> w \<in> set vs" by simp
    then show ?thesis
      using Cons.IH [of v] Cons.IH [of w] vs False by auto
  qed
qed

lemma segments_append_sep: "segments (a @ CHR ''/'' # b) = segments a @ segments b"
  by (simp add: segments_def str_split_append_sep)

lemma segments_Nil: "segments [] = []"
  by (simp add: segments_def)

lemma segments_no_sep:
  "CHR ''/'' \<notin> set t \<Longrightarrow> segments t = (if t = [] \<or> t = ''.'' then [] else [t])"
  by (simp add: segments_def str_split_no_sep)

lemma segments_trailing_seps: "segments (a @ replicate n (CHR ''/'')) = segments a"
proof (induction n)
  case 0
  show ?case by simp
next
  case (Suc n)
  have "a @ replicate (Suc n) (CHR ''/'') = (a @ replicate n (CHR ''/'')) @ CHR ''/'' # []"
    by (simp add: replicate_append_same)
  then show ?case
    using Suc segments_append_sep [of "a @ replicate n (CHR ''/'')" "[]"]
    by (simp add: segments_Nil)
qed

lemma takeWhile_eq_replicate:
  "takeWhile (\<lambda>c. c = x) ys = replicate (length (takeWhile (\<lambda>c. c = x) ys)) x"
  by (induction ys) auto

lemma rstrip_sep_decomp:
  "s = rstrip_sep s @ replicate (length (takeWhile (\<lambda>c. c = CHR ''/'') (rev s))) (CHR ''/'')"
proof -
  have "rev s = takeWhile (\<lambda>c. c = CHR ''/'') (rev s) @ dropWhile (\<lambda>c. c = CHR ''/'') (rev s)"
    by simp
  then have "rev (rev s) = rev (takeWhile (\<lambda>c. c = CHR ''/'') (rev s) @ dropWhile (\<lambda>c. c = CHR ''/'') (rev s))"
    by simp
  then have "s = rev (dropWhile (\<lambda>c. c = CHR ''/'') (rev s)) @ rev (takeWhile (\<lambda>c. c = CHR ''/'') (rev s))"
    by (simp only: rev_rev_ident rev_append)
  moreover have "rev (takeWhile (\<lambda>c. c = CHR ''/'') (rev s))
      = replicate (length (takeWhile (\<lambda>c. c = CHR ''/'') (rev s))) (CHR ''/'')"
    using takeWhile_eq_replicate [of "CHR ''/''" "rev s"] by (metis rev_replicate)
  ultimately show ?thesis unfolding rstrip_sep_def by simp
qed

lemma segments_rstrip_sep: "segments (rstrip_sep s) = segments s"
proof -
  have "segments s = segments (rstrip_sep s @ replicate (length (takeWhile (\<lambda>c. c = CHR ''/'') (rev s))) (CHR ''/''))"
    using rstrip_sep_decomp [of s] by simp
  then show ?thesis by (simp only: segments_trailing_seps)
qed

lemma segments_elems: "w \<in> set (segments p) \<Longrightarrow> w \<noteq> [] \<and> CHR ''/'' \<notin> set w"
  by (auto simp: segments_def dest: str_split_elems)

lemma str_join_snoc:
  "xs \<noteq> [] \<Longrightarrow> str_join sep (xs @ [t]) = str_join sep xs @ sep @ t"
  by (induction sep xs rule: str_join.induct) auto

lemma str_join_nonempty: "xs \<noteq> [] \<Longrightarrow> last xs \<noteq> [] \<Longrightarrow> str_join sep xs \<noteq> []"
  by (induction sep xs rule: str_join.induct) auto

lemma str_join_last:
  "xs \<noteq> [] \<Longrightarrow> last xs \<noteq> [] \<Longrightarrow> last (str_join sep xs) = last (last xs)"
proof (induction sep xs rule: str_join.induct)
  case (3 sep x y ys)
  then have "str_join sep (y # ys) \<noteq> []"
    using str_join_nonempty [of "y # ys" sep] by simp
  with 3 show ?case by simp
qed simp_all


lemma path_split_no_sep: "CHR ''/'' \<notin> set p \<Longrightarrow> path_split p = ([], p)"
proof -
  assume a: "CHR ''/'' \<notin> set p"
  have tw: "takeWhile (\<lambda>c. c \<noteq> CHR ''/'') (rev p) = rev p"
    by (rule takeWhile_eq_all_conv [THEN iffD2]) (use a in auto)
  have dw: "dropWhile (\<lambda>c. c \<noteq> CHR ''/'') (rev p) = []"
    by (rule dropWhile_eq_Nil_conv [THEN iffD2]) (use a in auto)
  show ?thesis unfolding path_split_def tw dw by simp
qed

lemma path_split_sep:
  assumes "CHR ''/'' \<notin> set t"
  shows "path_split (a @ CHR ''/'' # t) =
           (if a @ ''/'' = replicate (Suc (length a)) (CHR ''/'') then a @ ''/''
            else rstrip_sep (a @ ''/''), t)"
proof -
  have r: "rev (a @ CHR ''/'' # t) = rev t @ CHR ''/'' # rev a" by simp
  have "takeWhile (\<lambda>c. c \<noteq> CHR ''/'') (rev t @ CHR ''/'' # rev a)
          = rev t @ takeWhile (\<lambda>c. c \<noteq> CHR ''/'') (CHR ''/'' # rev a)"
    by (rule takeWhile_append2) (use assms in auto)
  then have tw: "takeWhile (\<lambda>c. c \<noteq> CHR ''/'') (rev t @ CHR ''/'' # rev a) = rev t"
    by simp
  have "dropWhile (\<lambda>c. c \<noteq> CHR ''/'') (rev t @ CHR ''/'' # rev a)
          = dropWhile (\<lambda>c. c \<noteq> CHR ''/'') (CHR ''/'' # rev a)"
    by (rule dropWhile_append2) (use assms in auto)
  then have dw: "dropWhile (\<lambda>c. c \<noteq> CHR ''/'') (rev t @ CHR ''/'' # rev a) = CHR ''/'' # rev a"
    by simp
  show ?thesis
    unfolding path_split_def r tw dw by (simp add: Let_def)
qed

lemma last_sep_decomp:
  "CHR ''/'' \<in> set p \<Longrightarrow> \<exists>a t. p = a @ CHR ''/'' # t \<and> CHR ''/'' \<notin> set t"
  by (rule split_list_last)

lemma rstrip_sep_last: "rstrip_sep s = [] \<or> last (rstrip_sep s) \<noteq> CHR ''/''"
proof (cases "dropWhile (\<lambda>c. c = CHR ''/'') (rev s) = []")
  case True
  then show ?thesis by (simp add: rstrip_sep_def)
next
  case False
  then have "hd (dropWhile (\<lambda>c. c = CHR ''/'') (rev s)) \<noteq> CHR ''/''"
    using hd_dropWhile [of "\<lambda>c. c = CHR ''/''" "rev s"] by simp
  with False show ?thesis by (simp add: rstrip_sep_def last_rev)
qed

lemma rstrip_sep_length: "length (rstrip_sep s) \<le> length s"
  by (simp add: rstrip_sep_def length_dropWhile_le [of _ "rev s", simplified])

lemma rstrip_sep_take1: "take 1 s \<noteq> ''/'' \<Longrightarrow> take 1 (rstrip_sep s) \<noteq> ''/''"
proof -
  assume s: "take 1 s \<noteq> ''/''"
  obtain n where d: "s = rstrip_sep s @ replicate n (CHR ''/'')"
    using rstrip_sep_decomp [of s] by blast
  show ?thesis
  proof (cases "rstrip_sep s")
    case Nil
    then show ?thesis by simp
  next
    case (Cons c cs)
    with d have "s = c # cs @ replicate n (CHR ''/'')" by simp
    then have "take 1 s = [c]" by simp
    with s Cons show ?thesis by simp
  qed
qed

lemma path_join_segments:
  assumes t: "t \<noteq> []" "CHR ''/'' \<notin> set t"
  shows "path_join (str_join ''/'' (segments h)) t = str_join ''/'' (segments h @ [t])"
proof (cases "segments h = []")
  case True
  have "take 1 t \<noteq> ''/''" using t by (cases t) auto
  with True show ?thesis by (simp add: path_join_def)
next
  case False
  then have l: "last (segments h) \<in> set (segments h)" by simp
  then have ne: "last (segments h) \<noteq> []" and ns: "CHR ''/'' \<notin> set (last (segments h))"
    using segments_elems [of "last (segments h)" h] by simp_all
  have j: "str_join ''/'' (segments h) \<noteq> []"
    using False ne by (rule str_join_nonempty)
  have "last (str_join ''/'' (segments h)) = last (last (segments h))"
    using False ne by (rule str_join_last)
  moreover have "last (last (segments h)) \<in> set (last (segments h))"
    using ne by simp
  ultimately have nl: "last (str_join ''/'' (segments h)) \<noteq> CHR ''/''"
    using ns by metis
  have "take 1 t \<noteq> ''/''" using t by (cases t) auto
  then show ?thesis
    using j nl False by (simp add: path_join_def str_join_snoc)
qed

lemma cleanpath_segments:
  "take 1 p \<noteq> ''/'' \<Longrightarrow> p = [] \<or> last p \<noteq> CHR ''/''
     \<Longrightarrow> cleanpath p = Some (str_join ''/'' (segments p))"
proof (induction p rule: length_induct)
  case (1 p)
  show ?case
  proof (cases "p = []")
    case True
    then show ?thesis by (subst cleanpath.simps) (simp add: segments_Nil)
  next
    case nonempty: False
    show ?thesis
    proof (cases "CHR ''/'' \<in> set p")
      case False
      have c0: "cleanpath [] = Some []" by (subst cleanpath.simps) simp
      have "take 1 p \<noteq> ''/''" using "1.prems" by simp
      then have "path_join [] p = p" by (simp add: path_join_def)
      then show ?thesis
        using False nonempty c0
        by (subst cleanpath.simps) (simp add: path_split_no_sep segments_no_sep)
    next
      case True
      then obtain a t where p: "p = a @ CHR ''/'' # t" and t: "CHR ''/'' \<notin> set t"
        using last_sep_decomp by blast
      have tne: "t \<noteq> []" using "1.prems"(2) p by auto
      have a: "a \<noteq> []" "hd a \<noteq> CHR ''/''" using "1.prems"(1) p by (cases a; simp)+
      have notall: "a @ ''/'' \<noteq> replicate (Suc (length a)) (CHR ''/'')"
        using a by (cases a) auto
      define h where "h = rstrip_sep (a @ ''/'')"
      have sp: "path_split p = (h, t)"
        using path_split_sep [OF t, of a] notall p h_def by simp
      have "take 1 (a @ ''/'') \<noteq> ''/''" using a by (cases a) auto
      then have h1: "take 1 h \<noteq> ''/''" unfolding h_def by (rule rstrip_sep_take1)
      have h2: "h = [] \<or> last h \<noteq> CHR ''/''" unfolding h_def by (rule rstrip_sep_last)
      have "length h \<le> length (a @ ''/'')" unfolding h_def by (rule rstrip_sep_length)
      then have h3: "length h < length p" using p tne by (cases t) simp_all
      have ih: "cleanpath h = Some (str_join ''/'' (segments h))"
        using "1.IH" h1 h2 h3 by blast
      have "segments h = segments (a @ CHR ''/'' # [])"
        unfolding h_def by (simp add: segments_rstrip_sep)
      then have sh: "segments h = segments a"
        by (simp only: segments_append_sep segments_Nil append_Nil2)
      have seg: "segments p = segments h @ (if t = ''.'' then [] else [t])"
        using p t tne sh by (simp add: segments_append_sep segments_no_sep)
      have "cleanpath p = Some (if t \<noteq> ''.'' then path_join (str_join ''/'' (segments h)) t
                                 else str_join ''/'' (segments h))"
        using nonempty sp ih by (subst cleanpath.simps) simp
      then show ?thesis
        using seg path_join_segments [OF tne t, of h] by simp
    qed
  qed
qed

lemma path_split_absolute:
  assumes "take 1 p = ''/''"
  shows "take 1 (fst (path_split p)) = ''/''"
proof -
  obtain cs where p: "p = CHR ''/'' # cs" using assms by (cases p) auto
  then have "CHR ''/'' \<in> set p" by simp
  then obtain a t where at: "p = a @ CHR ''/'' # t" and t: "CHR ''/'' \<notin> set t"
    using last_sep_decomp by blast
  have a1: "take 1 (a @ ''/'') = ''/''" using p at by (cases a) auto
  show ?thesis
  proof (cases "a @ ''/'' = replicate (Suc (length a)) (CHR ''/'')")
    case True
    then show ?thesis using path_split_sep [OF t, of a] at a1 by simp
  next
    case False
    obtain n where d: "a @ ''/'' = rstrip_sep (a @ ''/'') @ replicate n (CHR ''/'')"
      using rstrip_sep_decomp [of "a @ ''/''"] by blast
    have "rstrip_sep (a @ ''/'') \<noteq> []"
    proof
      assume "rstrip_sep (a @ ''/'') = []"
      with d have "a @ ''/'' = replicate n (CHR ''/'')" by simp
      moreover from this have "n = Suc (length a)" by (metis length_append_singleton length_replicate)
      ultimately show False using False by simp
    qed
    then obtain c cs' where r: "rstrip_sep (a @ ''/'') = c # cs'"
      by (cases "rstrip_sep (a @ ''/'')") auto
    with d have "a @ ''/'' = c # cs' @ replicate n (CHR ''/'')" by simp
    then have "take 1 (a @ ''/'') = [c]" by simp
    with a1 r have "take 1 (rstrip_sep (a @ ''/'')) = ''/''" by simp
    with False show ?thesis using path_split_sep [OF t, of a] at by simp
  qed
qed

lemma cleanpath_absolute:
  assumes "take 1 p = ''/''"
  shows "cleanpath p = None"
proof -
  have "take 1 q \<noteq> ''/''" if "cleanpath q = Some r" for q r
  proof (rule cleanpath.raw_induct [where P = "\<lambda>q r. take 1 q \<noteq> ''/''", OF _ that])
    fix f q r
    assume IH: "\<And>q r. f q = Some r \<Longrightarrow> take 1 q \<noteq> ''/''"
      and eq: "(if q = [] then Some []
                else Option.bind (f (fst (path_split q)))
                  (\<lambda>dirname. Some (if snd (path_split q) \<noteq> ''.''
                      then path_join dirname (snd (path_split q)) else dirname))) = Some r"
    show "take 1 q \<noteq> ''/''"
    proof
      assume abs: "take 1 q = ''/''"
      then have "q \<noteq> []" by auto
      with eq obtain d where "f (fst (path_split q)) = Some d"
        by (auto simp: bind_eq_Some_conv)
      then have "take 1 (fst (path_split q)) \<noteq> ''/''" by (rule IH)
      with path_split_absolute [OF abs] show False by simp
    qed
  qed
  with assms show ?thesis by (cases "cleanpath p") auto
qed

text \<open>
  Claim C8, as the code has it. The two paths of the claim both get the archive entry name
  \<^verbatim>\<open>a/b.js\<close>. For a relative path that does not end in a slash, \<^verbatim>\<open>cleanpath\<close>
  returns the segments that are neither empty nor \<^verbatim>\<open>.\<close>, joined by slashes; so two
  such paths that differ only in empty and \<^verbatim>\<open>.\<close> segments get the same archive entry
  name.
\<close>

theorem cleanpath_equal_segments:
  "cleanpath ''./a/b.js'' = Some ''a/b.js'' \<and> cleanpath ''a/b.js'' = Some ''a/b.js'' \<and>
   (\<forall>p q. relative_file_path p \<and> relative_file_path q \<and> segments p = segments q
      \<longrightarrow> cleanpath p = Some (str_join ''/'' (segments p)) \<and> cleanpath q = cleanpath p)"
proof -
  have a: "cleanpath ''./a/b.js'' = Some ''a/b.js''"
    by (simp add: cleanpath.simps path_split_def rstrip_sep_def path_join_def)
  have b: "cleanpath ''a/b.js'' = Some ''a/b.js''"
    by (simp add: cleanpath.simps path_split_def rstrip_sep_def path_join_def)
  have "cleanpath p = Some (str_join ''/'' (segments p)) \<and> cleanpath q = cleanpath p"
    if "relative_file_path p" and "relative_file_path q" and "segments p = segments q"
    for p q
    using that cleanpath_segments [of p] cleanpath_segments [of q]
    by (simp add: relative_file_path_def)
  with a b show ?thesis by blast
qed

theorem cleanpath_equal_segments_witness:
  "relative_file_path ''x/./y'' \<and> relative_file_path ''x//y''
   \<and> segments ''x/./y'' = segments ''x//y''
   \<and> cleanpath ''x/./y'' = Some ''x/y'' \<and> cleanpath ''x//y'' = Some ''x/y''"
proof -
  have r: "relative_file_path ''x/./y''" "relative_file_path ''x//y''"
    by (simp_all add: relative_file_path_def)
  have s: "segments ''x/./y'' = [''x'', ''y'']" "segments ''x//y'' = [''x'', ''y'']"
    by (simp_all add: segments_def)
  from cleanpath_equal_segments
  have "relative_file_path ''x/./y'' \<and> relative_file_path ''x//y''
          \<and> segments ''x/./y'' = segments ''x//y''
        \<longrightarrow> cleanpath ''x/./y'' = Some (str_join ''/'' (segments ''x/./y''))
            \<and> cleanpath ''x//y'' = cleanpath ''x/./y''"
    by blast
  with r s show ?thesis by simp
qed

text \<open>
  Claim C8 as it is written speaks of any two destination paths. A trailing empty segment
  is not collapsed: the table keys \<^verbatim>\<open>resources/a/\<close> and \<^verbatim>\<open>resources/a\<close> (two
  file resources named \<^verbatim>\<open>a/\<close> and \<^verbatim>\<open>a\<close>) differ only in an empty segment and get
  different archive entry names.
\<close>

theorem cleanpath_trailing_slash_counterexample:
  "segments ''resources/a/'' = segments ''resources/a''
   \<and> cleanpath ''resources/a/'' \<noteq> cleanpath ''resources/a''"
  by (simp add: segments_def cleanpath.simps path_split_def rstrip_sep_def path_join_def)

section \<open>collectFiles: the shared default list\<close>

text \<open>
  Claim C9. A call that leaves \<open>dirs\<close> out appends its resource-directory, extension
  and theme overlays to the shared default list. So after a first such call from the
  initial state the list is the runtime pair followed by that call's overlays, and a second
  such call collects from that list, followed by its own overlays, not from the runtime
  pair alone.
\<close>

theorem collectFiles_default_accumulates:
  "default_dirs (snd (collectFiles_default e1 opts1 initial_module_state))
     = (''runtime'', ''.'') # resource_dirs e1 opts1 @ extfiles e1 opts1 @ theme_dirs opts1
   \<and> collectFiles_default e2 opts2 (snd (collectFiles_default e1 opts1 initial_module_state))
     = (fst (collectFiles e2 opts2
          ((''runtime'', ''.'') # resource_dirs e1 opts1 @ extfiles e1 opts1 @ theme_dirs opts1)),
        \<lparr>default_dirs =
           (''runtime'', ''.'') # resource_dirs e1 opts1 @ extfiles e1 opts1 @ theme_dirs opts1
             @ resource_dirs e2 opts2 @ extfiles e2 opts2 @ theme_dirs opts2\<rparr>)"
  by (simp add: collectFiles_default_def collectFiles_def initial_module_state_def
      extended_dirs_def Let_def)


section \<open>The table and the merged assets: properties\<close>

lemma map_of_dict_set: "map_of (dict_set k v files) = (map_of files)(k \<mapsto> v)"
proof (cases "k \<in> fst ` set files")
  case False
  then have "map_of files k = None" by (simp add: map_of_eq_None_iff)
  then have "map_of (files @ [(k, v)]) = (map_of files)(k \<mapsto> v)"
    by (auto simp: map_add_def fun_eq_iff split: option.splits)
  with False show ?thesis by (simp add: dict_set_def)
next
  case True
  have "map_of (map (\<lambda>(k', v'). if k' = k then (k', v) else (k', v')) xs) =
        (if k \<in> fst ` set xs then (map_of xs)(k \<mapsto> v) else map_of xs)" for xs
    by (induction xs) (auto simp: fun_eq_iff)
  with True show ?thesis by (simp add: dict_set_def)
qed

lemma dict_set_new: "k \<notin> fst ` set files \<Longrightarrow> dict_set k v files = files @ [(k, v)]"
  by (simp add: dict_set_def)

lemma fold_dict_del:
  "fold (\<lambda>(dst, src). dict_del dst) ds files = filter (\<lambda>(k, v). k \<notin> fst ` set ds) files"
proof (induction ds arbitrary: files)
  case Nil
  show ?case by simp
next
  case (Cons d ds)
  obtain dst src where d: "d = (dst, src)" by (cases d)
  have "filter (\<lambda>(k, v). k \<notin> fst ` set ds) (dict_del dst files)
      = filter (\<lambda>(k, v). k \<notin> fst ` set (d # ds)) files"
    unfolding dict_del_def d by (induction files) auto
  with Cons [of "dict_del dst files"] d show ?case by simp
qed

lemma delete_class:
  "fold (\<lambda>(dst, src). dict_del dst) (filter (\<lambda>(dst, src). ext_of dst = x) files) files
     = filter (\<lambda>(dst, src). ext_of dst \<noteq> x) files"
proof -
  have "(k \<notin> fst ` set (filter (\<lambda>(dst, src). ext_of dst = x) files)) = (ext_of k \<noteq> x)"
    if "(k, v) \<in> set files" for k v
    using that by (auto simp: image_iff)
  then have "filter (\<lambda>(k, v). k \<notin> fst ` set (filter (\<lambda>(dst, src). ext_of dst = x) files)) files
      = filter (\<lambda>(dst, src). ext_of dst \<noteq> x) files"
    by (intro filter_cong) auto
  then show ?thesis by (simp only: fold_dict_del)
qed

lemma ext_of_styles: "ext_of (path_join ''.'' ''styles.css'') = ''.css''"
  by (simp add: ext_of_def path_splitext_def path_join_def Let_def)

lemma ext_of_scripts: "ext_of (path_join ''.'' ''scripts.js'') = ''.js''"
  by (simp add: ext_of_def path_splitext_def path_join_def Let_def)

lemma merged_paths: "path_join ''.'' ''styles.css'' = ''./styles.css''"
  "path_join ''.'' ''scripts.js'' = ''./scripts.js''"
  by (simp_all add: path_join_def)

lemma merge_stylesheets_Inr:
  assumes "merge_stylesheets e files = Inr files1"
  shows "\<exists>texts. read_all e (map snd (filter (\<lambda>(dst, src). ext_of dst = ''.css'') files)) = Inr texts
           \<and> files1 = filter (\<lambda>(dst, src). ext_of dst \<noteq> ''.css'') files
                        @ [(''./styles.css'', InMemory (str_join newline texts))]"
proof -
  have "''./styles.css'' \<notin> fst ` set (filter (\<lambda>(dst, src). ext_of dst \<noteq> ''.css'') files)"
    using ext_of_styles by (auto simp: merged_paths)
  then show ?thesis
    using assms
    by (auto simp: merge_stylesheets_def Let_def delete_class merged_paths dict_set_new
          split: sum.splits)
qed

lemma merge_javascripts_Inr:
  assumes "merge_javascripts e opts files = Inr files2"
  shows "\<exists>texts. OnDisk (numbas_loader_path opts)
              \<in> set (map snd (filter (\<lambda>(dst, src). ext_of dst = ''.js'') files))
           \<and> read_all e (OnDisk (numbas_loader_path opts)
                # remove1 (OnDisk (numbas_loader_path opts))
                    (map snd (filter (\<lambda>(dst, src). ext_of dst = ''.js'') files))) = Inr texts
           \<and> files2 = filter (\<lambda>(dst, src). ext_of dst \<noteq> ''.js'') files
                        @ [(''./scripts.js'', InMemory (str_join newline texts))]"
proof -
  have "''./scripts.js'' \<notin> fst ` set (filter (\<lambda>(dst, src). ext_of dst \<noteq> ''.js'') files)"
    using ext_of_scripts by (auto simp: merged_paths)
  then show ?thesis
    using assms
    by (auto simp: merge_javascripts_def Let_def delete_class merged_paths dict_set_new
          split: sum.splits if_splits)
qed

lemma aggregate_Inr:
  assumes "aggregate e opts files = Inr files'"
  shows "\<exists>css js. files' = filter (\<lambda>(dst, src). ext_of dst \<noteq> ''.css'' \<and> ext_of dst \<noteq> ''.js'') files
                     @ [(''./styles.css'', InMemory css), (''./scripts.js'', InMemory js)]"
proof -
  from assms obtain files1 where 1: "merge_stylesheets e files = Inr files1"
    and 2: "merge_javascripts e opts files1 = Inr files'"
    by (auto simp: aggregate_def split: sum.splits)
  from merge_stylesheets_Inr [OF 1] obtain texts where
    f1: "files1 = filter (\<lambda>(dst, src). ext_of dst \<noteq> ''.css'') files
                        @ [(''./styles.css'', InMemory (str_join newline texts))]" by blast
  from merge_javascripts_Inr [OF 2] obtain texts2 where
    f2: "files' = filter (\<lambda>(dst, src). ext_of dst \<noteq> ''.js'') files1
                        @ [(''./scripts.js'', InMemory (str_join newline texts2))]" by blast
  have "ext_of ''./styles.css'' \<noteq> ''.js''" using ext_of_styles by (simp add: merged_paths)
  then have "filter (\<lambda>(dst, src). ext_of dst \<noteq> ''.js'') files1
     = filter (\<lambda>(dst, src). ext_of dst \<noteq> ''.css'' \<and> ext_of dst \<noteq> ''.js'') files
        @ [(''./styles.css'', InMemory (str_join newline texts))]"
    unfolding f1 by (auto intro: filter_cong)
  with f2 show ?thesis by simp
qed

lemma str_join_Cons: "str_join sep (x # xs) = x @ concat (map (\<lambda>t. sep @ t) xs)"
  by (induction xs arbitrary: x) auto

lemma merge_javascripts_missing:
  "OnDisk (numbas_loader_path opts) \<notin> set (script_sources files)
     \<Longrightarrow> merge_javascripts e opts files = Inl MissingBootstrapScript"
  by (simp add: merge_javascripts_def script_sources_def Let_def)

lemma merge_javascripts_present:
  assumes "OnDisk (numbas_loader_path opts) \<in> set (script_sources files)"
    and "read_all e (OnDisk (numbas_loader_path opts)
            # remove1 (OnDisk (numbas_loader_path opts)) (script_sources files)) = Inr texts"
  shows "merge_javascripts e opts files
           = Inr (filter (\<lambda>(dst, src). ext_of dst \<noteq> ''.js'') files
                    @ [(''./scripts.js'', InMemory (str_join newline texts))])"
proof -
  have "''./scripts.js'' \<notin> fst ` set (filter (\<lambda>(dst, src). ext_of dst \<noteq> ''.js'') files)"
    using ext_of_scripts by (auto simp: merged_paths)
  then show ?thesis
    using assms
    by (simp add: merge_javascripts_def script_sources_def Let_def delete_class merged_paths
          dict_set_new)
qed

text \<open>
  Claim C3. The script merge looks for the loader's path among the sources of the script
  entries. When it is not there, the merge raises (the error called
  \<open>MissingBootstrapScript\<close>; in Python the \<^verbatim>\<open>ValueError\<close> of \<^verbatim>\<open>list.remove\<close>). When
  it is there and the scripts can be read, the merged entry \<^verbatim>\<open>./scripts.js\<close> holds the
  loader's content first, then the content of every other script in table order, each
  after a newline.
\<close>

theorem bootstrap_script_first:
  "(OnDisk (numbas_loader_path opts) \<notin> set (script_sources files)
      \<longrightarrow> merge_javascripts e opts files = Inl MissingBootstrapScript)
   \<and> (OnDisk (numbas_loader_path opts) \<in> set (script_sources files)
        \<and> read_text e (numbas_loader_path opts) = Some boot
        \<and> read_all e (remove1 (OnDisk (numbas_loader_path opts)) (script_sources files))
            = Inr others
      \<longrightarrow> (\<exists>files'. merge_javascripts e opts files = Inr files'
             \<and> map_of files' ''./scripts.js''
                 = Some (InMemory (boot @ concat (map (\<lambda>t. newline @ t) others)))))"
proof (intro conjI impI)
  assume "OnDisk (numbas_loader_path opts) \<notin> set (script_sources files)"
  then show "merge_javascripts e opts files = Inl MissingBootstrapScript"
    by (rule merge_javascripts_missing)
next
  assume a: "OnDisk (numbas_loader_path opts) \<in> set (script_sources files)
        \<and> read_text e (numbas_loader_path opts) = Some boot
        \<and> read_all e (remove1 (OnDisk (numbas_loader_path opts)) (script_sources files))
            = Inr others"
  then have "read_all e (OnDisk (numbas_loader_path opts)
            # remove1 (OnDisk (numbas_loader_path opts)) (script_sources files))
          = Inr (boot # others)"
    by (simp add: read_source_def)
  with a have m: "merge_javascripts e opts files
           = Inr (filter (\<lambda>(dst, src). ext_of dst \<noteq> ''.js'') files
                    @ [(''./scripts.js'', InMemory (str_join newline (boot # others)))])"
    by (intro merge_javascripts_present) simp_all
  have "''./scripts.js'' \<notin> fst ` set (filter (\<lambda>(dst, src). ext_of dst \<noteq> ''.js'') files)"
    using ext_of_scripts by (auto simp: merged_paths)
  then have "map_of (filter (\<lambda>(dst, src). ext_of dst \<noteq> ''.js'') files) ''./scripts.js'' = None"
    by (simp add: map_of_eq_None_iff)
  then have "map_of (filter (\<lambda>(dst, src). ext_of dst \<noteq> ''.js'') files
                    @ [(''./scripts.js'', InMemory (str_join newline (boot # others)))])
               ''./scripts.js'' = Some (InMemory (str_join newline (boot # others)))"
    by (simp add: map_add_def)
  with m show "\<exists>files'. merge_javascripts e opts files = Inr files'
             \<and> map_of files' ''./scripts.js''
                 = Some (InMemory (boot @ concat (map (\<lambda>t. newline @ t) others)))"
    by (simp add: str_join_Cons)
qed

lemma demo_loader: "numbas_loader_path demo_options = ''/n/runtime/scripts/numbas.js''"
  by (simp add: numbas_loader_path_def demo_options_def path_join4_def path_join_def)

lemma ext_of_demo:
  "ext_of ''./index.html'' = ''.html''"
  "ext_of ''./scripts/jme.js'' = ''.js''"
  "ext_of ''./scripts/numbas.js'' = ''.js''"
  "ext_of ''./style.css'' = ''.css''"
  "ext_of ''./settings.js'' = ''.js''"
  by (simp_all add: ext_of_def path_splitext_def Let_def)

lemma demo_script_sources:
  "script_sources demo_table
     = [OnDisk ''/n/runtime/scripts/jme.js'', OnDisk ''/n/runtime/scripts/numbas.js'',
        InMemory ''settings'']"
  by (simp add: script_sources_def demo_table_def ext_of_demo)

lemma demo_read_text: "read_text demo_env p = Some (''<'' @ p @ ''>'')"
  by (simp add: demo_env_def)

lemma demo_read_bytes: "read_bytes demo_env p = Some (''<'' @ p @ ''>'')"
  by (simp add: demo_env_def)

theorem bootstrap_script_first_witness:
  "(\<exists>files'. merge_javascripts demo_env demo_options demo_table = Inr files'
      \<and> map_of files' ''./scripts.js''
          = Some (InMemory (''</n/runtime/scripts/numbas.js>'' @ newline
                            @ ''</n/runtime/scripts/jme.js>'' @ newline @ ''settings'')))
   \<and> merge_javascripts demo_env demo_options (dict_del ''./scripts/numbas.js'' demo_table)
       = Inl MissingBootstrapScript"
proof -
  have 1: "script_sources (dict_del ''./scripts/numbas.js'' demo_table)
     = [OnDisk ''/n/runtime/scripts/jme.js'', InMemory ''settings'']"
    by (simp add: script_sources_def demo_table_def dict_del_def ext_of_demo)
  have A: "OnDisk (numbas_loader_path demo_options) \<in> set (script_sources demo_table)
        \<and> read_text demo_env (numbas_loader_path demo_options)
            = Some ''</n/runtime/scripts/numbas.js>''
        \<and> read_all demo_env
              (remove1 (OnDisk (numbas_loader_path demo_options)) (script_sources demo_table))
            = Inr [''</n/runtime/scripts/jme.js>'', ''settings'']"
    by (simp add: demo_loader demo_script_sources read_source_def demo_read_text)
  have B: "OnDisk (numbas_loader_path demo_options)
             \<notin> set (script_sources (dict_del ''./scripts/numbas.js'' demo_table))"
    by (simp add: demo_loader 1)
  from bootstrap_script_first [THEN conjunct2, rule_format, OF A]
    bootstrap_script_first [THEN conjunct1, rule_format, OF B]
  show ?thesis by simp
qed

lemma filter_merged_tail:
  assumes "files' = filter (\<lambda>(dst, src). ext_of dst \<noteq> ''.css'' \<and> ext_of dst \<noteq> ''.js'') files
                     @ [(''./styles.css'', InMemory css), (''./scripts.js'', InMemory js)]"
  shows "filter (\<lambda>(dst, src). ext_of dst = ''.css'') files' = [(''./styles.css'', InMemory css)]"
    and "filter (\<lambda>(dst, src). ext_of dst = ''.js'') files' = [(''./scripts.js'', InMemory js)]"
proof -
  have e: "ext_of ''./styles.css'' = ''.css''" "ext_of ''./scripts.js'' = ''.js''"
    using ext_of_styles ext_of_scripts by (simp_all add: merged_paths)
  show "filter (\<lambda>(dst, src). ext_of dst = ''.css'') files' = [(''./styles.css'', InMemory css)]"
    unfolding assms by (auto simp add: e filter_empty_conv)
  show "filter (\<lambda>(dst, src). ext_of dst = ''.js'') files' = [(''./scripts.js'', InMemory js)]"
    unfolding assms by (auto simp add: e filter_empty_conv)
qed

text \<open>
  Claim C5. After the two merges (when they succeed) exactly one table entry has the
  extension \<^verbatim>\<open>.css\<close>, the merged \<^verbatim>\<open>./styles.css\<close>, and exactly one has the
  extension \<^verbatim>\<open>.js\<close>, the merged \<^verbatim>\<open>./scripts.js\<close>; both are held in memory. The
  extension of a key is what \<^verbatim>\<open>os.path.splitext\<close> says, as in the code.
\<close>

theorem aggregate_collapses_assets:
  assumes "aggregate e opts files = Inr files'"
  shows "\<exists>css js.
           filter (\<lambda>(dst, src). ext_of dst = ''.css'') files' = [(''./styles.css'', InMemory css)]
         \<and> filter (\<lambda>(dst, src). ext_of dst = ''.js'') files' = [(''./scripts.js'', InMemory js)]"
proof -
  from aggregate_Inr [OF assms] obtain css js where
    "files' = filter (\<lambda>(dst, src). ext_of dst \<noteq> ''.css'' \<and> ext_of dst \<noteq> ''.js'') files
                     @ [(''./styles.css'', InMemory css), (''./scripts.js'', InMemory js)]"
    by blast
  from filter_merged_tail [OF this] show ?thesis by blast
qed

lemma demo_aggregate:
  "aggregate demo_env demo_options demo_table =
     Inr [(''./index.html'', OnDisk ''/n/themes/R/files/index.html''),
          (''./styles.css'', InMemory ''</n/themes/R/files/style.css>''),
          (''./scripts.js'',
             InMemory (''</n/runtime/scripts/numbas.js>'' @ newline
                       @ ''</n/runtime/scripts/jme.js>'' @ newline @ ''settings''))]"
  by (simp add: aggregate_def merge_stylesheets_def merge_javascripts_def demo_table_def
      ext_of_demo dict_del_def dict_set_def merged_paths read_source_def demo_read_text
      demo_loader Let_def ext_of_styles [unfolded merged_paths])

theorem aggregate_collapses_assets_witness:
  "\<exists>files'. aggregate demo_env demo_options demo_table = Inr files'
     \<and> (\<exists>css js.
           filter (\<lambda>(dst, src). ext_of dst = ''.css'') files' = [(''./styles.css'', InMemory css)]
         \<and> filter (\<lambda>(dst, src). ext_of dst = ''.js'') files' = [(''./scripts.js'', InMemory js)])"
  using aggregate_collapses_assets [OF demo_aggregate] demo_aggregate by blast

lemma script_sources_after_styles:
  "script_sources (filter (\<lambda>(dst, src). ext_of dst \<noteq> ''.css'') files @ [(''./styles.css'', v)])
     = script_sources files"
proof -
  have "ext_of ''./styles.css'' \<noteq> ''.js''" using ext_of_styles by (simp add: merged_paths)
  moreover have "filter (\<lambda>(dst, src). ext_of dst = ''.js'')
                   (filter (\<lambda>(dst, src). ext_of dst \<noteq> ''.css'') files)
               = filter (\<lambda>(dst, src). ext_of dst = ''.js'') files"
    by (auto intro: filter_cong)
  ultimately show ?thesis by (simp add: script_sources_def)
qed

lemma aggregate_missing:
  assumes "OnDisk (numbas_loader_path opts) \<notin> set (script_sources files)"
  shows "\<exists>err. aggregate e opts files = Inl err"
proof (cases "merge_stylesheets e files")
  case (Inl err)
  then show ?thesis by (simp add: aggregate_def)
next
  case (Inr files1)
  from merge_stylesheets_Inr [OF Inr] obtain texts where
    "files1 = filter (\<lambda>(dst, src). ext_of dst \<noteq> ''.css'') files
                @ [(''./styles.css'', InMemory (str_join newline texts))]" by blast
  then have "script_sources files1 = script_sources files"
    by (simp only: script_sources_after_styles)
  with assms have "merge_javascripts e opts files1 = Inl MissingBootstrapScript"
    by (intro merge_javascripts_missing) simp
  with Inr show ?thesis by (simp add: aggregate_def)
qed

lemma ext_of_bootstrap_dst: "ext_of bootstrap_dst = ''.js''"
  by (simp add: bootstrap_dst_def ext_of_def path_splitext_def Let_def)

text \<open>
  Claim C10, as the code has it. The merge knows the bootstrap loader by its source path
  only. Take a table (with distinct keys, as a dict has) whose entry at the loader's
  destination \<^verbatim>\<open>./scripts/numbas.js\<close> is backed by another file \<open>p\<close>, as it is after
  a theme has replaced it, and in which the loader's own file is not collected under any
  other script key. Then the script merge raises, and so the build stops with an error,
  although the table has a script entry at the loader's destination.
\<close>

theorem bootstrap_identified_by_source:
  assumes entry: "(bootstrap_dst, OnDisk p) \<in> set files"
    and other: "p \<noteq> numbas_loader_path opts"
    and keys: "distinct (map fst files)"
    and once: "\<forall>(dst, src) \<in> set files.
                 src = OnDisk (numbas_loader_path opts) \<and> ext_of dst = ''.js''
                   \<longrightarrow> dst = bootstrap_dst"
  shows "merge_javascripts e opts files = Inl MissingBootstrapScript
         \<and> (\<exists>err. finish_files e opts (files, m) = Inl err)
         \<and> OnDisk p \<in> set (script_sources files)"
proof -
  have absent: "OnDisk (numbas_loader_path opts) \<notin> set (script_sources files)"
  proof
    assume "OnDisk (numbas_loader_path opts) \<in> set (script_sources files)"
    then obtain dst where d: "(dst, OnDisk (numbas_loader_path opts)) \<in> set files"
      and x: "ext_of dst = ''.js''"
      by (auto simp: script_sources_def)
    with once have "dst = bootstrap_dst" by blast
    with d entry keys have "OnDisk (numbas_loader_path opts) = OnDisk p"
      by (meson eq_key_imp_eq_value)
    with other show False by simp
  qed
  have "OnDisk p \<in> set (script_sources files)"
    using entry ext_of_bootstrap_dst by (force simp: script_sources_def)
  moreover obtain err where "aggregate e opts files = Inl err"
    using aggregate_missing [OF absent] by blast
  then have "finish_files e opts (files, m) = Inl err" by (simp add: finish_files_def)
  ultimately show ?thesis
    using merge_javascripts_missing [OF absent] by blast
qed

lemma override_collect:
  "fst (collectFiles demo_env override_options [(''runtime'', ''.'')]) =
    [(''./index.html'', OnDisk ''/n/runtime/index.html''),
     (''./scripts/jme.js'', OnDisk ''/n/runtime/scripts/jme.js''),
     (''./scripts/numbas.js'', OnDisk ''/n/themes/T/files/scripts/numbas.js''),
     (''resources/pics/cat.png'', OnDisk ''/w/pics/cat.png''),
     (''extensions/geo/geo.js'', OnDisk ''/n/extensions/geo/geo.js'')]"
proof -
  have d: "extended_dirs demo_env override_options [(''runtime'', ''.'')] =
    [(''runtime'', ''.''), (''/w/pics'', ''resources/pics''),
     (''/n/extensions/geo'', ''extensions/geo''), (''/n/themes/T/files'', ''.'')]"
    by (simp add: extended_dirs_def resource_dirs_def resource_pairs_def extfiles_def
        theme_dirs_def path_join_def path_join3_def path_split_def rstrip_sep_def demo_env_def
        override_options_def demo_options_def)
  have o: "overlay_entries demo_env override_options (''runtime'', ''.'') =
       [(''./index.html'', OnDisk ''/n/runtime/index.html''),
        (''./scripts/jme.js'', OnDisk ''/n/runtime/scripts/jme.js''),
        (''./scripts/numbas.js'', OnDisk ''/n/runtime/scripts/numbas.js'')]"
    "overlay_entries demo_env override_options (''/w/pics'', ''resources/pics'') =
       [(''resources/pics/cat.png'', OnDisk ''/w/pics/cat.png'')]"
    "overlay_entries demo_env override_options (''/n/extensions/geo'', ''extensions/geo'') =
       [(''extensions/geo/geo.js'', OnDisk ''/n/extensions/geo/geo.js'')]"
    "overlay_entries demo_env override_options (''/n/themes/T/files'', ''.'') =
       [(''./scripts/numbas.js'', OnDisk ''/n/themes/T/files/scripts/numbas.js'')]"
    by (simp_all add: overlay_entries_def path_join_def realFile_def demo_env_def
        override_options_def demo_options_def demo_walk_def Let_def)
  have fr: "file_resources demo_env override_options = []"
    by (simp add: file_resources_def resource_pairs_def demo_env_def override_options_def
        demo_options_def)
  show ?thesis
    by (simp add: collectFiles_def d overlay_table_def o fr dict_update_def dict_set_def Let_def)
qed

theorem bootstrap_identified_by_source_witness:
  "(bootstrap_dst, OnDisk ''/n/themes/T/files/scripts/numbas.js'')
      \<in> set (fst (collectFiles demo_env override_options [(''runtime'', ''.'')]))
   \<and> merge_javascripts demo_env override_options
        (fst (collectFiles demo_env override_options [(''runtime'', ''.'')]))
       = Inl MissingBootstrapScript
   \<and> (\<exists>err. finish_files demo_env override_options
                (fst (collectFiles demo_env override_options [(''runtime'', ''.'')]), None)
              = Inl err)"
proof -
  have l: "numbas_loader_path override_options = ''/n/runtime/scripts/numbas.js''"
    by (simp add: numbas_loader_path_def override_options_def demo_options_def path_join4_def
        path_join_def)
  have 1: "(bootstrap_dst, OnDisk ''/n/themes/T/files/scripts/numbas.js'')
      \<in> set (fst (collectFiles demo_env override_options [(''runtime'', ''.'')]))"
    by (simp add: override_collect bootstrap_dst_def)
  have 2: "''/n/themes/T/files/scripts/numbas.js'' \<noteq> numbas_loader_path override_options"
    by (simp add: l)
  have 3: "distinct (map fst (fst (collectFiles demo_env override_options [(''runtime'', ''.'')])))"
    by (simp add: override_collect)
  have 4: "\<forall>(dst, src) \<in> set (fst (collectFiles demo_env override_options [(''runtime'', ''.'')])).
             src = OnDisk (numbas_loader_path override_options) \<and> ext_of dst = ''.js''
               \<longrightarrow> dst = bootstrap_dst"
    by (simp add: override_collect l)
  from bootstrap_identified_by_source [OF 1 2 3 4, of demo_env None] 1
  show ?thesis by blast
qed

section \<open>The minifier\<close>

text \<open>
  The minifier is run on the table entries that are file-backed and have the extension
  \<^verbatim>\<open>.js\<close>. The loop comes after the merge, which has replaced every such entry by the
  in-memory \<^verbatim>\<open>./scripts.js\<close>: there is nothing left for it to run on.
\<close>

lemma minify_loop_noop:
  "\<forall>(dst, src) \<in> set items. \<forall>p. src = OnDisk p \<longrightarrow> ext_of dst \<noteq> ''.js''
     \<Longrightarrow> minify_loop e opts items files = Inr files"
proof (induction items)
  case Nil
  show ?case by simp
next
  case (Cons it items)
  obtain dst src where it: "it = (dst, src)" by (cases it)
  show ?case
  proof (cases src)
    case (OnDisk p)
    with Cons.prems it have "ext_of dst \<noteq> ''.js''" by simp
    with Cons OnDisk it show ?thesis by simp
  next
    case (InMemory t)
    with Cons it show ?thesis by simp
  qed
qed

lemma minify_after_aggregate:
  assumes "aggregate e opts files = Inr files'"
  shows "minify_files e opts files' = Inr files'"
proof -
  from aggregate_Inr [OF assms] obtain css js where
    f: "files' = filter (\<lambda>(dst, src). ext_of dst \<noteq> ''.css'' \<and> ext_of dst \<noteq> ''.js'') files
                     @ [(''./styles.css'', InMemory css), (''./scripts.js'', InMemory js)]"
    by blast
  have "\<forall>(dst, src) \<in> set files'. \<forall>p. src = OnDisk p \<longrightarrow> ext_of dst \<noteq> ''.js''"
    unfolding f by auto
  then have "minify_loop e opts files' files' = Inr files'"
    by (rule minify_loop_noop)
  then show ?thesis by (simp add: minify_files_def)
qed

lemma read_all_error: "read_all e srcs = Inl err \<Longrightarrow> \<exists>p. err = ReadError p"
  by (induction srcs arbitrary: err)
     (auto simp: read_source_def split: sum.splits content_source.splits option.splits)

lemma aggregate_error:
  assumes "aggregate e opts files = Inl err"
  shows "err = MissingBootstrapScript \<or> (\<exists>p. err = ReadError p)"
proof (cases "merge_stylesheets e files")
  case (Inl err')
  then have "\<exists>p. err' = ReadError p"
    by (auto simp: merge_stylesheets_def Let_def split: sum.splits dest: read_all_error)
  with Inl assms show ?thesis by (simp add: aggregate_def)
next
  case (Inr files1)
  with assms have "merge_javascripts e opts files1 = Inl err" by (simp add: aggregate_def)
  then show ?thesis
    by (auto simp: merge_javascripts_def Let_def simp del: read_all.simps
          split: sum.splits if_splits dest: read_all_error)
qed

lemma finish_files_no_minification_error:
  "finish_files e opts fm \<noteq> Inl (MinificationFailed src cmd)"
proof (cases "aggregate e opts (fst fm)")
  case (Inl err)
  with aggregate_error [OF Inl] show ?thesis by (auto simp: finish_files_def)
next
  case (Inr files2)
  with minify_after_aggregate [OF Inr] show ?thesis by (simp add: finish_files_def)
qed

lemma makeExam_files_no_minification_error:
  "makeExam_files e opts ms \<noteq> Some (Inl (MinificationFailed src cmd))"
  using finish_files_no_minification_error [of e _ _ src cmd]
  by (auto simp: makeExam_files_def add_scorm_def Let_def
        split: option.splits sum.splits if_splits prod.splits)


lemma demo_dirs:
  "extended_dirs demo_env demo_options [(''runtime'', ''.'')] =
  [(''runtime'', ''.''), (''/w/pics'', ''resources/pics''),
   (''/n/extensions/geo'', ''extensions/geo''),
   (''/n/themes/B/files'', ''.''), (''/n/themes/A/files'', ''.''),
   (''/n/themes/R/files'', ''.'')]"
  by (simp add: extended_dirs_def resource_dirs_def resource_pairs_def
      extfiles_def theme_dirs_def path_join_def path_join3_def path_split_def rstrip_sep_def demo_env_def
      demo_options_def)

lemma demo_overlays:
  "overlay_entries demo_env demo_options (''runtime'', ''.'') =
     [(''./index.html'', OnDisk ''/n/runtime/index.html''),
      (''./scripts/jme.js'', OnDisk ''/n/runtime/scripts/jme.js''),
      (''./scripts/numbas.js'', OnDisk ''/n/runtime/scripts/numbas.js'')]"
  "overlay_entries demo_env demo_options (''/w/pics'', ''resources/pics'') =
     [(''resources/pics/cat.png'', OnDisk ''/w/pics/cat.png'')]"
  "overlay_entries demo_env demo_options (''/n/extensions/geo'', ''extensions/geo'') =
     [(''extensions/geo/geo.js'', OnDisk ''/n/extensions/geo/geo.js'')]"
  "overlay_entries demo_env demo_options (''/n/themes/B/files'', ''.'') =
     [(''./index.html'', OnDisk ''/n/themes/B/files/index.html'')]"
  "overlay_entries demo_env demo_options (''/n/themes/A/files'', ''.'') =
     [(''./index.html'', OnDisk ''/n/themes/A/files/index.html''),
      (''./a.css'', OnDisk ''/n/themes/A/files/a.css'')]"
  "overlay_entries demo_env demo_options (''/n/themes/R/files'', ''.'') =
     [(''./index.html'', OnDisk ''/n/themes/R/files/index.html''),
      (''./style.css'', OnDisk ''/n/themes/R/files/style.css'')]"
  by (simp_all add: overlay_entries_def path_join_def realFile_def demo_env_def demo_options_def
      demo_walk_def Let_def)

lemma demo_file_resources: "file_resources demo_env demo_options = []"
  by (simp add: file_resources_def resource_pairs_def demo_env_def demo_options_def)

lemma demo_collect:
  "fst (collectFiles demo_env demo_options [(''runtime'', ''.'')]) =
  [(''./index.html'', OnDisk ''/n/themes/R/files/index.html''),
   (''./scripts/jme.js'', OnDisk ''/n/runtime/scripts/jme.js''),
   (''./scripts/numbas.js'', OnDisk ''/n/runtime/scripts/numbas.js''),
   (''resources/pics/cat.png'', OnDisk ''/w/pics/cat.png''),
   (''extensions/geo/geo.js'', OnDisk ''/n/extensions/geo/geo.js''),
   (''./a.css'', OnDisk ''/n/themes/A/files/a.css''),
   (''./style.css'', OnDisk ''/n/themes/R/files/style.css'')]"
  by (simp add: collectFiles_def demo_dirs overlay_table_def demo_overlays demo_file_resources
      dict_update_def dict_set_def Let_def)

lemma demo_exam_options:
  "demo_options\<lparr>resources := exam_resources demo_exam, extensions := exam_extensions demo_exam\<rparr>
     = demo_options"
  by (simp add: demo_options_def demo_exam_def)

lemma demo_injected:
  "inject_generated demo_env ''locale''
     (fst (collectFiles demo_env demo_options [(''runtime'', ''.'')])) =
  [(''./index.html'', OnDisk ''/n/themes/R/files/index.html''),
   (''./scripts/jme.js'', OnDisk ''/n/runtime/scripts/jme.js''),
   (''./scripts/numbas.js'', OnDisk ''/n/runtime/scripts/numbas.js''),
   (''resources/pics/cat.png'', OnDisk ''/w/pics/cat.png''),
   (''extensions/geo/geo.js'', OnDisk ''/n/extensions/geo/geo.js''),
   (''./a.css'', OnDisk ''/n/themes/A/files/a.css''),
   (''./style.css'', OnDisk ''/n/themes/R/files/style.css''),
   (''./settings.js'', InMemory ''settings''),
   (''./locale.js'', InMemory ''locale'')]"
proof -
  have x: "xml2js demo_env = ''settings''" by (simp add: demo_env_def)
  show ?thesis
    by (simp add: inject_generated_def demo_collect dict_set_def path_join_def x)
qed

lemma ext_of_demo_keys:
  "ext_of ''./index.html'' = ''.html''"
  "ext_of ''./scripts/jme.js'' = ''.js''"
  "ext_of ''./scripts/numbas.js'' = ''.js''"
  "ext_of ''resources/pics/cat.png'' = ''.png''"
  "ext_of ''extensions/geo/geo.js'' = ''.js''"
  "ext_of ''./a.css'' = ''.css''"
  "ext_of ''./style.css'' = ''.css''"
  "ext_of ''./settings.js'' = ''.js''"
  "ext_of ''./locale.js'' = ''.js''"
  "ext_of ''./styles.css'' = ''.css''"
  "ext_of ''./scripts.js'' = ''.js''"
  "ext_of ''./api.js'' = ''.js''"
  "ext_of ''./imsmanifest.xml'' = ''.xml''"
  by (simp_all add: ext_of_def path_splitext_def Let_def)

lemma demo_finish:
  "finish_files demo_env demo_options
     (inject_generated demo_env ''locale''
        (fst (collectFiles demo_env demo_options [(''runtime'', ''.'')])), None) =
   Inr ([(''./index.html'', OnDisk ''/n/themes/R/files/index.html''),
         (''resources/pics/cat.png'', OnDisk ''/w/pics/cat.png''),
         (''./styles.css'', InMemory demo_css),
         (''./scripts.js'', InMemory demo_js)], None)"
  by (simp add: finish_files_def aggregate_def merge_stylesheets_def merge_javascripts_def
      minify_files_def demo_injected ext_of_demo_keys dict_del_def dict_set_def merged_paths
      read_source_def demo_read_text demo_loader Let_def demo_css_def demo_js_def)

lemma demo_makeExam_files:
  "makeExam_files demo_env demo_options initial_module_state =
   Some (Inr ([(''./index.html'', OnDisk ''/n/themes/R/files/index.html''),
         (''resources/pics/cat.png'', OnDisk ''/w/pics/cat.png''),
         (''./styles.css'', InMemory demo_css),
         (''./scripts.js'', InMemory demo_js)], None))"
proof -
  have e: "parse_exam demo_env = Some demo_exam" "locale_script demo_env = Some ''locale''"
    by (simp_all add: demo_env_def)
  have s: "\<not> scorm demo_options" by (simp add: demo_options_def)
  have d: "default_dirs initial_module_state = [(''runtime'', ''.'')]"
    by (simp add: initial_module_state_def)
  have c: "fst (collectFiles_default demo_env demo_options initial_module_state)
      = fst (collectFiles demo_env demo_options [(''runtime'', ''.'')])"
    by (simp add: collectFiles_default_def d split_beta)
  show ?thesis
    unfolding makeExam_files_def e option.case Let_def demo_exam_options
    using s by (simp only: c demo_finish if_False)
qed

text \<open>
  Claim C4 asks that a minifier that always exits with status 1 aborts the build. In the
  small installation the minifier is configured and always exits with status 1; the
  build completes and writes the archive.
\<close>

theorem failing_minifier_build_completes:
  "minify demo_options = ''/bin/false''
   \<and> (\<forall>cmd src. fst (run_minifier demo_env cmd src) = 1)
   \<and> makeExam demo_env demo_options initial_module_state st =
       Some (Inr (Archive
         [\<lparr>filename = ''index.html'', external_attr = 27525120,
            data = ''</n/themes/R/files/index.html>''\<rparr>,
          \<lparr>filename = ''resources/pics/cat.png'', external_attr = 27525120,
            data = ''</w/pics/cat.png>''\<rparr>,
          \<lparr>filename = ''styles.css'', external_attr = 27525120,
            data = ''</n/themes/A/files/a.css>'' @ newline @ ''</n/themes/R/files/style.css>''\<rparr>,
          \<lparr>filename = ''scripts.js'', external_attr = 27525120,
            data = ''</n/runtime/scripts/numbas.js>'' @ newline @ ''</n/runtime/scripts/jme.js>''
              @ newline @ ''</n/extensions/geo/geo.js>'' @ newline @ ''settings'' @ newline
              @ ''locale''\<rparr>]))"
proof -
  have z: "zip_opt demo_options" by (simp add: demo_options_def)
  have m: "minify demo_options = ''/bin/false''" by (simp add: demo_options_def)
  have r: "\<forall>cmd src. fst (run_minifier demo_env cmd src) = 1" by (simp add: demo_env_def)
  have c: "cleanpath ''./index.html'' = Some ''index.html''"
    "cleanpath ''resources/pics/cat.png'' = Some ''resources/pics/cat.png''"
    "cleanpath ''./styles.css'' = Some ''styles.css''"
    "cleanpath ''./scripts.js'' = Some ''scripts.js''"
    by (simp_all add: cleanpath.simps path_split_def rstrip_sep_def path_join_def)
  have "makeExam demo_env demo_options initial_module_state st =
       Some (Inr (Archive
         [\<lparr>filename = ''index.html'', external_attr = 27525120,
            data = ''</n/themes/R/files/index.html>''\<rparr>,
          \<lparr>filename = ''resources/pics/cat.png'', external_attr = 27525120,
            data = ''</w/pics/cat.png>''\<rparr>,
          \<lparr>filename = ''styles.css'', external_attr = 27525120, data = demo_css\<rparr>,
          \<lparr>filename = ''scripts.js'', external_attr = 27525120, data = demo_js\<rparr>]))"
    by (simp add: makeExam_def demo_makeExam_files z c read_binary_def demo_read_bytes)
  with m r show ?thesis by (simp add: demo_css_def demo_js_def)
qed

section \<open>The directory writer: properties\<close>

lemma extends_with_dirs_refl: "extends_with_dirs st st"
  by (simp add: extends_with_dirs_def)

lemma extends_with_dirs_D:
  "extends_with_dirs st st' \<Longrightarrow> st' q = st q \<or> (st q = None \<and> (\<exists>t. st' q = Some (DirNode t)))"
  by (simp add: extends_with_dirs_def)

lemma extends_with_dirs_trans:
  assumes "extends_with_dirs a b" and "extends_with_dirs b c"
  shows "extends_with_dirs a c"
  unfolding extends_with_dirs_def
proof
  fix q
  from extends_with_dirs_D [OF assms(1), of q] extends_with_dirs_D [OF assms(2), of q]
  show "c q = a q \<or> (a q = None \<and> (\<exists>t. c q = Some (DirNode t)))" by auto
qed

lemma extends_with_dirs_mkdir: "extends_with_dirs st (mkdir now st d)"
  by (auto simp: extends_with_dirs_def mkdir_def)

lemma makepath_extends:
  assumes "makepath now st p = Some st1"
  shows "extends_with_dirs st st1"
proof (rule makepath.raw_induct [where P = "\<lambda>now st p st1. extends_with_dirs st st1", OF _ assms])
  fix f now st p st1
  assume IH: "\<And>now st p st1. f now st p = Some st1 \<Longrightarrow> extends_with_dirs st st1"
    and eq: "(if st (path_dirname p) = None
              then Option.bind (f now st (path_dirname p))
                     (\<lambda>st'. Some (mkdir now st' (path_dirname p)))
              else Some st) = Some st1"
  show "extends_with_dirs st st1"
  proof (cases "st (path_dirname p) = None")
    case True
    with eq obtain st' where f: "f now st (path_dirname p) = Some st'"
      and s: "st1 = mkdir now st' (path_dirname p)"
      by (auto simp: bind_eq_Some_conv)
    from IH [OF f] extends_with_dirs_mkdir [of st' now "path_dirname p"] s
    show ?thesis by (auto intro: extends_with_dirs_trans)
  next
    case False
    with eq show ?thesis by (simp add: extends_with_dirs_refl)
  qed
qed

lemma makepath_parent_exists:
  "st (path_dirname p) \<noteq> None \<Longrightarrow> makepath now st p = Some st"
  by (subst makepath.simps) auto

lemma copyfile_source:
  "copyfile now st src dst = Inr st' \<Longrightarrow> \<exists>c t. st src = Some (FileNode c t)"
  by (auto simp: copyfile_def split: option.splits node.splits if_splits)

lemma write_entry_None:
  "makepath now st (path_join (output_path opts) k) = None \<Longrightarrow> write_entry now opts st (k, v) = None"
  by (simp add: write_entry_def)

lemma write_entry_OnDisk:
  "makepath now st (path_join (output_path opts) k) = Some st1 \<Longrightarrow>
   write_entry now opts st (k, OnDisk src) =
     Some (if action opts = ''clean'' \<or> st1 (path_join (output_path opts) k) = None
           then copyfile now st1 src (path_join (output_path opts) k)
           else (case getmtime st1 src of
                   None \<Rightarrow> Inl (ReadError src)
                 | Some ts \<Rightarrow>
                     (case getmtime st1 (path_join (output_path opts) k) of
                        None \<Rightarrow> Inl (WriteError (path_join (output_path opts) k))
                      | Some td \<Rightarrow>
                          if ts > td then copyfile now st1 src (path_join (output_path opts) k)
                          else Inr st1)))"
  by (auto simp: write_entry_def Let_def)

text \<open>
  Claim C7. In an update build, for a file-backed entry whose destination exists as a file
  (in a directory that exists) with a modification time not older than the source's, the
  loop body returns the file system as it found it: nothing is copied. And whenever the
  loop body, for a file-backed entry, returns a file system that differs at the
  destination, the build is a clean build, or the destination was missing, or the source
  was strictly newer than the destination.
\<close>

theorem incremental_skip:
  assumes dst: "dst = path_join (output_path opts) k"
  shows "(action opts \<noteq> ''clean'' \<and> st dst = Some (FileNode c td) \<and> st (path_dirname dst) \<noteq> None
            \<and> getmtime st src = Some ts \<and> ts \<le> td
          \<longrightarrow> write_entry now opts st (k, OnDisk src) = Some (Inr st))
       \<and> (write_entry now opts st (k, OnDisk src) = Some (Inr st') \<and> st' dst \<noteq> st dst
          \<longrightarrow> action opts = ''clean'' \<or> st dst = None
              \<or> (\<exists>ts td. getmtime st src = Some ts \<and> getmtime st dst = Some td \<and> td < ts))"
proof (intro conjI impI)
  assume a: "action opts \<noteq> ''clean'' \<and> st dst = Some (FileNode c td)
               \<and> st (path_dirname dst) \<noteq> None \<and> getmtime st src = Some ts \<and> ts \<le> td"
  then have "makepath now st (path_join (output_path opts) k) = Some st"
    unfolding dst by (intro makepath_parent_exists) simp
  from write_entry_OnDisk [OF this] a show "write_entry now opts st (k, OnDisk src) = Some (Inr st)"
    by (simp add: dst [symmetric] getmtime_def)
next
  assume a: "write_entry now opts st (k, OnDisk src) = Some (Inr st') \<and> st' dst \<noteq> st dst"
  then obtain st1 where mp: "makepath now st (path_join (output_path opts) k) = Some st1"
    using write_entry_None [of now st opts k "OnDisk src"]
    by (cases "makepath now st (path_join (output_path opts) k)") auto
  have ext: "extends_with_dirs st st1" using mp by (rule makepath_extends)
  note we = write_entry_OnDisk [OF mp, of src, folded dst]
  show "action opts = ''clean'' \<or> st dst = None
          \<or> (\<exists>ts td. getmtime st src = Some ts \<and> getmtime st dst = Some td \<and> td < ts)"
  proof (cases "action opts = ''clean'' \<or> st dst = None")
    case True
    then show ?thesis by blast
  next
    case False
    then have "st dst \<noteq> None" by simp
    with extends_with_dirs_D [OF ext, of dst]
    have d1: "st1 dst = st dst" "st1 dst \<noteq> None" by auto
    from a we False d1 have r0: "(case getmtime st1 src of
                   None \<Rightarrow> Inl (ReadError src)
                 | Some ts \<Rightarrow>
                     (case getmtime st1 dst of
                        None \<Rightarrow> Inl (WriteError dst)
                      | Some td \<Rightarrow>
                          if ts > td then copyfile now st1 src dst
                          else Inr st1)) = Inr st'"
      by simp
    then obtain ts where ts: "getmtime st1 src = Some ts"
      by (cases "getmtime st1 src") auto
    with r0 obtain td where td: "getmtime st1 dst = Some td"
      by (cases "getmtime st1 dst") auto
    with r0 ts have r: "(if td < ts then copyfile now st1 src dst else Inr st1) = Inr st'"
      by simp
    show ?thesis
    proof (cases "td < ts")
      case True
      with r have "copyfile now st1 src dst = Inr st'" by simp
      then obtain c t where "st1 src = Some (FileNode c t)"
        using copyfile_source by blast
      with extends_with_dirs_D [OF ext, of src] have "st src = st1 src" by auto
      with ts td d1 True show ?thesis by (auto simp: getmtime_def)
    next
      case no: False
      with r have "st' = st1" by simp
      with a d1 show ?thesis by simp
    qed
  qed
qed

lemma dir_options_fields: "action dir_options = ''update''" "output_path dir_options = ''out''"
  by (simp_all add: dir_options_def demo_options_def)

lemma demo_fs_lookup:
  "demo_fs t ''out'' = Some (DirNode 1)"
  "demo_fs t ''out/a.txt'' = Some (FileNode ''old'' 50)"
  "demo_fs t ''src/a.txt'' = Some (FileNode ''new'' t)"
  by (simp_all add: demo_fs_def)

theorem incremental_skip_witness:
  "write_entry 100 dir_options (demo_fs 40) (''a.txt'', OnDisk ''src/a.txt'')
     = Some (Inr (demo_fs 40))
   \<and> write_entry 100 dir_options (demo_fs 60) (''a.txt'', OnDisk ''src/a.txt'')
       = Some (Inr ((demo_fs 60)(''out/a.txt'' \<mapsto> FileNode ''new'' 100)))
   \<and> getmtime (demo_fs 60) ''src/a.txt'' = Some 60
   \<and> getmtime (demo_fs 60) ''out/a.txt'' = Some 50"
proof -
  have d: "''out/a.txt'' = path_join (output_path dir_options) ''a.txt''"
    by (simp add: dir_options_fields path_join_def)
  have dn: "path_dirname ''out/a.txt'' = ''out''"
    by (simp add: path_dirname_def path_split_def rstrip_sep_def)
  have h: "action dir_options \<noteq> ''clean'' \<and> demo_fs 40 ''out/a.txt'' = Some (FileNode ''old'' 50)
            \<and> demo_fs 40 (path_dirname ''out/a.txt'') \<noteq> None
            \<and> getmtime (demo_fs 40) ''src/a.txt'' = Some 40 \<and> (40::int) \<le> 50"
    by (simp add: dir_options_fields demo_fs_lookup dn getmtime_def)
  have 1: "write_entry 100 dir_options (demo_fs 40) (''a.txt'', OnDisk ''src/a.txt'')
     = Some (Inr (demo_fs 40))"
    using incremental_skip [OF d, THEN conjunct1, rule_format, OF h] .
  have mp: "makepath 100 (demo_fs 60) (path_join (output_path dir_options) ''a.txt'')
              = Some (demo_fs 60)"
    unfolding d [symmetric] by (rule makepath_parent_exists) (simp add: dn demo_fs_lookup)
  have 2: "write_entry 100 dir_options (demo_fs 60) (''a.txt'', OnDisk ''src/a.txt'')
       = Some (Inr ((demo_fs 60)(''out/a.txt'' \<mapsto> FileNode ''new'' 100)))"
    unfolding write_entry_OnDisk [OF mp] d [symmetric]
    by (simp add: dir_options_fields demo_fs_lookup getmtime_def copyfile_def is_dir_node_def
        parent_ok_def dn)
  have 3: "((demo_fs 60)(''out/a.txt'' \<mapsto> FileNode ''new'' 100)) ''out/a.txt''
             \<noteq> demo_fs 60 ''out/a.txt''"
    by (simp add: demo_fs_lookup)
  from incremental_skip [OF d, THEN conjunct2, rule_format, of 100 "demo_fs 60" "''src/a.txt''",
      OF conjI [OF 2 3]]
  have "\<exists>ts td. getmtime (demo_fs 60) ''src/a.txt'' = Some ts
           \<and> getmtime (demo_fs 60) ''out/a.txt'' = Some td \<and> td < ts"
    by (simp add: dir_options_fields demo_fs_lookup)
  with 1 2 show ?thesis by (simp add: demo_fs_lookup getmtime_def)
qed

section \<open>The SCORM manifest: properties\<close>

lemma normpath_step_good:
  "good_segments acc \<Longrightarrow> CHR ''/'' \<notin> set seg \<Longrightarrow> good_segments (normpath_step ini acc seg)"
  by (auto simp: good_segments_def normpath_step_def dest: in_set_butlastD)

lemma foldl_normpath_good:
  "good_segments acc \<Longrightarrow> \<forall>s \<in> set segs. CHR ''/'' \<notin> set s
     \<Longrightarrow> good_segments (foldl (normpath_step ini) acc segs)"
  by (induction segs arbitrary: acc) (simp_all add: normpath_step_good)

lemma rstrip_sep_snoc: "a \<noteq> [] \<Longrightarrow> last a \<noteq> CHR ''/'' \<Longrightarrow> rstrip_sep (a @ ''/'') = a"
proof -
  assume a: "a \<noteq> []" "last a \<noteq> CHR ''/''"
  then have "rev a \<noteq> []" "hd (rev a) \<noteq> CHR ''/''" by (simp_all add: hd_rev)
  then have "dropWhile (\<lambda>c. c = CHR ''/'') (rev a) = rev a" by (cases "rev a") auto
  then show ?thesis by (simp add: rstrip_sep_def)
qed

lemma good_join_facts:
  assumes "good_segments xs" and "xs \<noteq> []"
  shows "str_join ''/'' xs \<noteq> []" and "last (str_join ''/'' xs) \<noteq> CHR ''/''"
    and "hd (str_join ''/'' xs) \<noteq> CHR ''/''"
proof -
  have l: "last xs \<noteq> []" "CHR ''/'' \<notin> set (last xs)"
    using assms by (auto simp: good_segments_def)
  show ne: "str_join ''/'' xs \<noteq> []" using assms(2) l(1) by (rule str_join_nonempty)
  have "last (str_join ''/'' xs) = last (last xs)" using assms(2) l(1) by (rule str_join_last)
  moreover have "last (last xs) \<in> set (last xs)" using l(1) by simp
  ultimately show "last (str_join ''/'' xs) \<noteq> CHR ''/''" using l(2) by metis
  obtain x ys where xs: "xs = x # ys" using assms(2) by (cases xs) auto
  then have x: "x \<noteq> []" "CHR ''/'' \<notin> set x" using assms(1) by (auto simp: good_segments_def)
  then have "hd x \<noteq> CHR ''/''" by (cases x) auto
  moreover have "hd (str_join ''/'' xs) = hd x" using xs x by (cases ys) auto
  ultimately show "hd (str_join ''/'' xs) \<noteq> CHR ''/''" by simp
qed

lemma to_relative_url_loop_good:
  "good_segments xs \<Longrightarrow> xs \<noteq> [] \<Longrightarrow>
   to_relative_url_loop (fst (path_split (str_join ''/'' xs)))
     (snd (path_split (str_join ''/'' xs))) bits = Some (xs @ bits)"
proof (induction xs arbitrary: bits rule: rev_induct)
  case Nil
  then show ?case by simp
next
  case (snoc t ys)
  have t: "t \<noteq> []" "CHR ''/'' \<notin> set t" using snoc.prems by (auto simp: good_segments_def)
  show ?case
  proof (cases "ys = []")
    case True
    then show ?thesis
      using t by (simp add: path_split_no_sep) (subst to_relative_url_loop.simps, simp)
  next
    case False
    have g: "good_segments ys" using snoc.prems by (auto simp: good_segments_def)
    define a where "a = str_join ''/'' ys"
    have a: "a \<noteq> []" "last a \<noteq> CHR ''/''" "hd a \<noteq> CHR ''/''"
      unfolding a_def using good_join_facts [OF g False] by simp_all
    have j: "str_join ''/'' (ys @ [t]) = a @ CHR ''/'' # t"
      using False by (simp add: str_join_snoc a_def)
    have notall: "a @ ''/'' \<noteq> replicate (Suc (length a)) (CHR ''/'')"
      using a by (cases a) auto
    have sp: "path_split (a @ CHR ''/'' # t) = (a, t)"
      using path_split_sep [OF t(2), of a] notall rstrip_sep_snoc [OF a(1,2)] by simp
    have "to_relative_url_loop a t bits
            = to_relative_url_loop (fst (path_split a)) (snd (path_split a)) (t # bits)"
      using a(1) by (subst to_relative_url_loop.simps) simp
    also have "\<dots> = Some (ys @ t # bits)"
      unfolding a_def using snoc.IH [OF g False] .
    finally show ?thesis by (simp add: j sp)
  qed
qed

lemma to_relative_url_relative:
  assumes "take 1 p \<noteq> ''/''"
  shows "to_relative_url p = Some (path_normpath p)"
proof -
  have dot: "to_relative_url_loop (fst (path_split ''.'')) (snd (path_split ''.'')) [] = Some [''.'']"
    by (simp add: path_split_def to_relative_url_loop.simps)
  show ?thesis
  proof (cases "p = []")
    case True
    then show ?thesis using dot by (simp add: to_relative_url_def path_normpath_def)
  next
    case False
    define comps where "comps = foldl (normpath_step 0) [] (str_split (CHR ''/'') p)"
    have ini: "initial_slashes p = 0" using assms by (simp add: initial_slashes_def)
    have g: "good_segments comps"
      unfolding comps_def
      by (rule foldl_normpath_good) (auto simp: good_segments_def dest: str_split_elems)
    show ?thesis
    proof (cases "comps = []")
      case True
      then have "path_normpath p = ''.''"
        using False ini by (simp add: path_normpath_def comps_def Let_def)
      then show ?thesis using dot by (simp add: to_relative_url_def)
    next
      case ne: False
      have "str_join ''/'' comps \<noteq> []" using good_join_facts(1) [OF g ne] .
      then have n: "path_normpath p = str_join ''/'' comps"
        using False ini by (simp add: path_normpath_def comps_def Let_def)
      show ?thesis
        unfolding to_relative_url_def n
        using to_relative_url_loop_good [OF g ne, of "[]"] by simp
    qed
  qed
qed

lemma those_map_Some: "those (map (\<lambda>x. Some (f x)) xs) = Some (map f xs)"
  by (induction xs) auto

lemma scorm_flag_irrelevant:
  "collectFiles e (opts\<lparr>scorm := b\<rparr>) dirs = collectFiles e opts dirs"
  "finish_files e (opts\<lparr>scorm := b\<rparr>) fm = finish_files e opts fm"
  "add_scorm e (opts\<lparr>scorm := b\<rparr>) ex files = add_scorm e opts ex files"
proof -
  have o: "overlay_entries e (opts\<lparr>scorm := b\<rparr>) = overlay_entries e opts"
    by (simp add: overlay_entries_def fun_eq_iff)
  show c: "collectFiles e (opts\<lparr>scorm := b\<rparr>) dirs = collectFiles e opts dirs" for dirs
    by (simp add: collectFiles_def extended_dirs_def resource_dirs_def resource_pairs_def
        extfiles_def theme_dirs_def overlay_table_def o file_resources_def)
  have m: "minify_loop e (opts\<lparr>scorm := b\<rparr>) items files = minify_loop e opts items files"
    for items files
    by (induction e opts items files rule: minify_loop.induct) simp_all
  have nl: "numbas_loader_path (opts\<lparr>scorm := b\<rparr>) = numbas_loader_path opts"
    by (simp add: numbas_loader_path_def)
  have mj: "merge_javascripts e (opts\<lparr>scorm := b\<rparr>) files = merge_javascripts e opts files"
    for files
    unfolding merge_javascripts_def nl ..
  have mf: "minify_files e (opts\<lparr>scorm := b\<rparr>) files = minify_files e opts files" for files
    by (simp add: minify_files_def m)
  show "finish_files e (opts\<lparr>scorm := b\<rparr>) fm = finish_files e opts fm"
    unfolding finish_files_def aggregate_def mj mf ..
  show "add_scorm e (opts\<lparr>scorm := b\<rparr>) ex files = add_scorm e opts ex files"
    unfolding add_scorm_def c ..
qed

lemma demo_scorm_overlay:
  "overlay_entries demo_env demo_options (''scormfiles'', ''.'') =
     [(''./api.js'', OnDisk ''/n/scormfiles/api.js'')]"
  by (simp add: overlay_entries_def path_join_def realFile_def demo_env_def demo_options_def
      demo_walk_def Let_def)

lemma demo_scorm_collect:
  "fst (collectFiles demo_env demo_options [(''scormfiles'', ''.'')]) =
  [(''./api.js'', OnDisk ''/n/scormfiles/api.js''),
   (''resources/pics/cat.png'', OnDisk ''/w/pics/cat.png''),
   (''extensions/geo/geo.js'', OnDisk ''/n/extensions/geo/geo.js''),
   (''./index.html'', OnDisk ''/n/themes/R/files/index.html''),
   (''./a.css'', OnDisk ''/n/themes/A/files/a.css''),
   (''./style.css'', OnDisk ''/n/themes/R/files/style.css'')]"
proof -
  have d: "extended_dirs demo_env demo_options [(''scormfiles'', ''.'')] =
    [(''scormfiles'', ''.''), (''/w/pics'', ''resources/pics''),
     (''/n/extensions/geo'', ''extensions/geo''),
     (''/n/themes/B/files'', ''.''), (''/n/themes/A/files'', ''.''),
     (''/n/themes/R/files'', ''.'')]"
    by (simp add: extended_dirs_def resource_dirs_def resource_pairs_def extfiles_def
        theme_dirs_def path_join_def path_join3_def path_split_def rstrip_sep_def demo_env_def
        demo_options_def)
  show ?thesis
    by (simp add: collectFiles_def d overlay_table_def demo_overlays demo_scorm_overlay
        demo_file_resources dict_update_def dict_set_def Let_def)
qed

lemma demo_normpaths:
  "path_normpath ''./index.html'' = ''index.html''"
  "path_normpath ''./scripts/jme.js'' = ''scripts/jme.js''"
  "path_normpath ''./scripts/numbas.js'' = ''scripts/numbas.js''"
  "path_normpath ''resources/pics/cat.png'' = ''resources/pics/cat.png''"
  "path_normpath ''extensions/geo/geo.js'' = ''extensions/geo/geo.js''"
  "path_normpath ''./a.css'' = ''a.css''"
  "path_normpath ''./style.css'' = ''style.css''"
  "path_normpath ''./settings.js'' = ''settings.js''"
  "path_normpath ''./locale.js'' = ''locale.js''"
  "path_normpath ''./scripts.js'' = ''scripts.js''"
  by (simp_all add: path_normpath_def initial_slashes_def normpath_step_def Let_def)

lemma demo_add_scorm:
  "add_scorm demo_env demo_options demo_exam
     (inject_generated demo_env ''locale''
        (fst (collectFiles demo_env demo_options [(''runtime'', ''.'')]))) =
   Some (Inr ([(''./index.html'', OnDisk ''/n/themes/R/files/index.html''),
               (''./scripts/jme.js'', OnDisk ''/n/runtime/scripts/jme.js''),
               (''./scripts/numbas.js'', OnDisk ''/n/runtime/scripts/numbas.js''),
               (''resources/pics/cat.png'', OnDisk ''/w/pics/cat.png''),
               (''extensions/geo/geo.js'', OnDisk ''/n/extensions/geo/geo.js''),
               (''./a.css'', OnDisk ''/n/themes/A/files/a.css''),
               (''./style.css'', OnDisk ''/n/themes/R/files/style.css''),
               (''./settings.js'', InMemory ''settings''),
               (''./locale.js'', InMemory ''locale''),
               (''./api.js'', OnDisk ''/n/scormfiles/api.js''),
               (''./imsmanifest.xml'', InMemory (manifest_tostring demo_env demo_scorm_manifest))],
              demo_scorm_manifest))"
proof -
  have t: "manifest_template demo_env = Some demo_manifest" by (simp add: demo_env_def)
  have r: "to_relative_url k = Some (path_normpath k)"
    if "k \<in> {''./index.html'', ''./scripts/jme.js'', ''./scripts/numbas.js'',
              ''resources/pics/cat.png'', ''extensions/geo/geo.js'', ''./a.css'', ''./style.css'',
              ''./settings.js'', ''./locale.js''}" for k
    using that by (intro to_relative_url_relative) auto
  show ?thesis
    unfolding add_scorm_def t option.case demo_injected demo_scorm_collect
    by (simp add: r demo_normpaths Let_def dict_update_def dict_set_def path_join_def
        demo_manifest_def demo_scorm_manifest_def demo_exam_def)
qed

lemma demo_scorm_finish:
  "finish_files demo_env demo_options
     ([(''./index.html'', OnDisk ''/n/themes/R/files/index.html''),
               (''./scripts/jme.js'', OnDisk ''/n/runtime/scripts/jme.js''),
               (''./scripts/numbas.js'', OnDisk ''/n/runtime/scripts/numbas.js''),
               (''resources/pics/cat.png'', OnDisk ''/w/pics/cat.png''),
               (''extensions/geo/geo.js'', OnDisk ''/n/extensions/geo/geo.js''),
               (''./a.css'', OnDisk ''/n/themes/A/files/a.css''),
               (''./style.css'', OnDisk ''/n/themes/R/files/style.css''),
               (''./settings.js'', InMemory ''settings''),
               (''./locale.js'', InMemory ''locale''),
               (''./api.js'', OnDisk ''/n/scormfiles/api.js''),
               (''./imsmanifest.xml'', InMemory (manifest_tostring demo_env demo_scorm_manifest))],
      Some demo_scorm_manifest) = Inr (demo_scorm_files, Some demo_scorm_manifest)"
  by (simp add: finish_files_def aggregate_def merge_stylesheets_def merge_javascripts_def
      minify_files_def ext_of_demo_keys dict_del_def dict_set_def merged_paths
      read_source_def demo_read_text demo_loader Let_def demo_css_def demo_js_def
      demo_scorm_js_def demo_scorm_files_def)

lemma demo_scorm_makeExam_files:
  "makeExam_files demo_env scorm_options initial_module_state
     = Some (Inr (demo_scorm_files, Some demo_scorm_manifest))"
proof -
  have e: "parse_exam demo_env = Some demo_exam" "locale_script demo_env = Some ''locale''"
    by (simp_all add: demo_env_def)
  have o: "scorm_options\<lparr>resources := exam_resources demo_exam,
              extensions := exam_extensions demo_exam\<rparr> = demo_options\<lparr>scorm := True\<rparr>"
    by (simp add: scorm_options_def demo_options_def demo_exam_def)
  have d: "default_dirs initial_module_state = [(''runtime'', ''.'')]"
    by (simp add: initial_module_state_def)
  have c: "fst (collectFiles_default demo_env (demo_options\<lparr>scorm := True\<rparr>) initial_module_state)
      = fst (collectFiles demo_env demo_options [(''runtime'', ''.'')])"
    by (simp add: collectFiles_default_def d split_beta scorm_flag_irrelevant)
  have s: "scorm (demo_options\<lparr>scorm := True\<rparr>)" by simp
  show ?thesis
    unfolding makeExam_files_def e option.case Let_def o c scorm_flag_irrelevant demo_add_scorm
    using s by (simp add: demo_scorm_finish)
qed

lemma map_of_filter_key:
  "map_of (filter (\<lambda>(k, v). P k) xs) k = (if P k then map_of xs k else None)"
  by (induction xs) auto

lemma add_scorm_relative_entry:
  assumes tmpl: "manifest_template e = Some tmpl"
    and rel: "\<forall>k \<in> fst ` set files. take 1 k \<noteq> ''/''"
  shows "\<exists>files' m. add_scorm e opts ex files = Some (Inr (files', m))
           \<and> file_hrefs m = file_hrefs tmpl @ map (\<lambda>x. path_normpath (fst x)) files
           \<and> map_of files' ''./imsmanifest.xml'' = Some (InMemory (manifest_tostring e m))"
proof -
  have "map (\<lambda>x. to_relative_url (fst x)) files = map (\<lambda>x. Some (path_normpath (fst x))) files"
    using rel by (intro map_cong) (auto simp: to_relative_url_relative)
  then have "those (map (\<lambda>x. to_relative_url (fst x)) files)
               = Some (map (\<lambda>x. path_normpath (fst x)) files)"
    by (simp only: those_map_Some)
  moreover have "path_join ''.'' ''imsmanifest.xml'' = ''./imsmanifest.xml''"
    by (simp add: path_join_def)
  ultimately show ?thesis
    using tmpl by (simp add: add_scorm_def Let_def map_of_dict_set)
qed

lemma finish_files_keeps_manifest:
  assumes "finish_files e opts (files1, m) = Inr (files, m')"
  shows "m' = m \<and> map_of files ''./imsmanifest.xml'' = map_of files1 ''./imsmanifest.xml''"
proof -
  from assms obtain files2 where a: "aggregate e opts files1 = Inr files2"
    and mf: "minify_files e opts files2 = Inr files" and m: "m' = m"
    by (auto simp: finish_files_def split: sum.splits)
  from minify_after_aggregate [OF a] mf have f: "files = files2" by simp
  from aggregate_Inr [OF a] obtain css js where
    f2: "files2 = filter (\<lambda>(dst, src). ext_of dst \<noteq> ''.css'' \<and> ext_of dst \<noteq> ''.js'') files1
                     @ [(''./styles.css'', InMemory css), (''./scripts.js'', InMemory js)]"
    by blast
  have x: "ext_of ''./imsmanifest.xml'' = ''.xml''"
    by (simp add: ext_of_def path_splitext_def Let_def)
  have "map_of files2 ''./imsmanifest.xml'' = map_of files1 ''./imsmanifest.xml''"
    unfolding f2
    using map_of_filter_key [of "\<lambda>k. ext_of k \<noteq> ''.css'' \<and> ext_of k \<noteq> ''.js''" files1
        "''./imsmanifest.xml''"] x
    by (auto simp: map_add_def split: option.splits)
  with f m show ?thesis by simp
qed

text \<open>
  Claim C6, as the code has it. In a SCORM build whose exam parses, whose locale script
  and manifest template load, and whose table has no absolute key when the SCORM branch
  begins, \<^verbatim>\<open>makeExam\<close> gets as far as the package writer or stops with an error; when it
  gets there, the patched manifest has, after the file elements of the template, one file
  element for each key of the table as it stood when the SCORM branch began (right after
  the settings and locale scripts were put in, before the SCORM support files, the
  manifest entry and the merged assets), in table order, with the normalised key as its
  \<^verbatim>\<open>href\<close>; and the table entry \<^verbatim>\<open>./imsmanifest.xml\<close> holds that manifest.
\<close>

theorem manifest_lists_table_before_scorm:
  assumes sc: "scorm opts" and ex: "parse_exam e = Some ex"
    and lj: "locale_script e = Some ljs" and tm: "manifest_template e = Some tmpl"
    and f0: "files0 = inject_generated e ljs
               (fst (collectFiles_default e
                  (opts\<lparr>resources := exam_resources ex, extensions := exam_extensions ex\<rparr>) ms))"
    and rel: "\<forall>k \<in> fst ` set files0. take 1 k \<noteq> ''/''"
  shows "\<exists>r. makeExam_files e opts ms = Some r
           \<and> (\<forall>files m. r = Inr (files, m) \<longrightarrow>
                (\<exists>pm. m = Some pm
                   \<and> file_hrefs pm = file_hrefs tmpl @ map (\<lambda>x. path_normpath (fst x)) files0
                   \<and> map_of files ''./imsmanifest.xml''
                       = Some (InMemory (manifest_tostring e pm))))"
proof -
  define opts' where
    "opts' = opts\<lparr>resources := exam_resources ex, extensions := exam_extensions ex\<rparr>"
  from add_scorm_relative_entry [OF tm rel, of opts' ex] obtain files1 pm where
    a: "add_scorm e opts' ex files0 = Some (Inr (files1, pm))"
    and h: "file_hrefs pm = file_hrefs tmpl @ map (\<lambda>x. path_normpath (fst x)) files0"
    and k: "map_of files1 ''./imsmanifest.xml'' = Some (InMemory (manifest_tostring e pm))"
    by blast
  have s: "scorm opts'" using sc by (simp add: opts'_def)
  have f0': "inject_generated e ljs (fst (collectFiles_default e opts' ms)) = files0"
    unfolding opts'_def f0 ..
  have r: "makeExam_files e opts ms = Some (finish_files e opts' (files1, Some pm))"
    unfolding makeExam_files_def ex lj option.case Let_def opts'_def [symmetric] f0'
    using s a by simp
  have "\<exists>pm'. m = Some pm'
           \<and> file_hrefs pm' = file_hrefs tmpl @ map (\<lambda>x. path_normpath (fst x)) files0
           \<and> map_of files ''./imsmanifest.xml'' = Some (InMemory (manifest_tostring e pm'))"
    if "finish_files e opts' (files1, Some pm) = Inr (files, m)" for files m
    using finish_files_keeps_manifest [OF that] h k by simp
  with r show ?thesis by blast
qed


lemma demo_scorm_files0:
  "inject_generated demo_env ''locale''
     (fst (collectFiles_default demo_env
        (scorm_options\<lparr>resources := exam_resources demo_exam,
           extensions := exam_extensions demo_exam\<rparr>) initial_module_state))
   = inject_generated demo_env ''locale''
       (fst (collectFiles demo_env demo_options [(''runtime'', ''.'')]))"
proof -
  have o: "scorm_options\<lparr>resources := exam_resources demo_exam,
              extensions := exam_extensions demo_exam\<rparr> = demo_options\<lparr>scorm := True\<rparr>"
    by (simp add: scorm_options_def demo_options_def demo_exam_def)
  have d: "default_dirs initial_module_state = [(''runtime'', ''.'')]"
    by (simp add: initial_module_state_def)
  show ?thesis
    unfolding o by (simp add: collectFiles_default_def d split_beta scorm_flag_irrelevant)
qed

theorem manifest_lists_table_before_scorm_witness:
  "makeExam_files demo_env scorm_options initial_module_state
     = Some (Inr (demo_scorm_files, Some demo_scorm_manifest))
   \<and> file_hrefs demo_scorm_manifest
       = file_hrefs demo_manifest
         @ map (\<lambda>x. path_normpath (fst x))
             (inject_generated demo_env ''locale''
                (fst (collectFiles demo_env demo_options [(''runtime'', ''.'')])))
   \<and> map_of demo_scorm_files ''./imsmanifest.xml''
       = Some (InMemory (manifest_tostring demo_env demo_scorm_manifest))"
proof -
  have sc: "scorm scorm_options" by (simp add: scorm_options_def)
  have e: "parse_exam demo_env = Some demo_exam" "locale_script demo_env = Some ''locale''"
    "manifest_template demo_env = Some demo_manifest"
    by (simp_all add: demo_env_def)
  have rel: "\<forall>k \<in> fst ` set (inject_generated demo_env ''locale''
       (fst (collectFiles demo_env demo_options [(''runtime'', ''.'')]))). take 1 k \<noteq> ''/''"
    by (simp add: demo_injected)
  from manifest_lists_table_before_scorm [OF sc e demo_scorm_files0 [symmetric] rel]
  show ?thesis
    by (simp add: demo_scorm_makeExam_files)
qed

text \<open>
  Claim C6 as it is written ties the file elements to the final table. In the small
  installation the final table has \<^verbatim>\<open>./scripts.js\<close>, which no file element names, and
  the manifest names \<^verbatim>\<open>scripts/jme.js\<close>, which no key of the final table stands for.
\<close>

theorem manifest_final_table_counterexample:
  "makeExam_files demo_env scorm_options initial_module_state
     = Some (Inr (demo_scorm_files, Some demo_scorm_manifest))
   \<and> ''./scripts.js'' \<in> fst ` set demo_scorm_files
   \<and> to_relative_url ''./scripts.js'' = Some ''scripts.js''
   \<and> ''scripts.js'' \<notin> set (file_hrefs demo_scorm_manifest)
   \<and> ''scripts/jme.js'' \<in> set (file_hrefs demo_scorm_manifest)
   \<and> Some ''scripts/jme.js'' \<notin> set (map to_relative_url (map fst demo_scorm_files))"
proof -
  have r: "to_relative_url k = Some (path_normpath k)"
    if "k \<in> {''./index.html'', ''resources/pics/cat.png'', ''./imsmanifest.xml'',
              ''./styles.css'', ''./scripts.js''}" for k
    using that by (intro to_relative_url_relative) auto
  have n: "path_normpath ''./imsmanifest.xml'' = ''imsmanifest.xml''"
    "path_normpath ''./styles.css'' = ''styles.css''"
    by (simp_all add: path_normpath_def initial_slashes_def normpath_step_def Let_def)
  show ?thesis
    by (simp add: demo_scorm_makeExam_files)
       (simp add: demo_scorm_files_def demo_scorm_manifest_def r demo_normpaths n)
qed

section \<open>collectFiles: which overlay wins\<close>

text \<open>
  The table after the overlays is, as a map, the overlays' own tables added up from left
  to right, so that a later one wins.
\<close>

lemma map_of_dict_update:
  "map_of (dict_update es files) = map_of files ++ map_of (rev es)"
proof (induction es arbitrary: files)
  case Nil
  show ?case by (simp add: dict_update_def)
next
  case (Cons x es)
  obtain k v where x: "x = (k, v)" by (cases x)
  have "dict_update (x # es) files = dict_update es (dict_set k v files)"
    by (simp add: dict_update_def x)
  then have "map_of (dict_update (x # es) files)
               = map_of (dict_set k v files) ++ map_of (rev es)"
    by (simp only: Cons)
  also have "\<dots> = (map_of files ++ [k \<mapsto> v]) ++ map_of (rev es)"
    by (simp only: map_of_dict_set map_add_upd map_add_empty)
  also have "\<dots> = map_of files ++ ([k \<mapsto> v] ++ map_of (rev es))"
    by (simp only: map_add_assoc)
  also have "[k \<mapsto> v] ++ map_of (rev es) = map_of (rev (x # es))"
    by (simp add: x)
  finally show ?case .
qed

lemma map_of_overlay_fold:
  "map_of (fold (\<lambda>d. dict_update (overlay_entries e opts d)) dirs init)
     = foldl (++) (map_of init) (map (overlay_map e opts) dirs)"
  by (induction dirs arbitrary: init) (simp_all add: map_of_dict_update overlay_map_def)

lemma map_of_overlay_table:
  "map_of (overlay_table e opts dirs) = foldl (++) Map.empty (map (overlay_map e opts) dirs)"
  by (simp add: overlay_table_def map_of_overlay_fold)

lemma foldl_map_add_start: "foldl (++) m0 ms = m0 ++ foldl (++) Map.empty ms"
proof (induction ms rule: rev_induct)
  case Nil
  show ?case by simp
next
  case (snoc m ms)
  have "foldl (++) m0 (ms @ [m]) = foldl (++) m0 ms ++ m" by simp
  also have "\<dots> = (m0 ++ foldl (++) Map.empty ms) ++ m" by (simp only: snoc)
  also have "\<dots> = m0 ++ (foldl (++) Map.empty ms ++ m)" by (simp only: map_add_assoc)
  also have "foldl (++) Map.empty ms ++ m = foldl (++) Map.empty (ms @ [m])" by simp
  finally show ?case .
qed

lemma foldl_map_add_append:
  "foldl (++) m0 (xs @ ys) = foldl (++) m0 xs ++ foldl (++) Map.empty ys"
proof -
  have "foldl (++) m0 (xs @ ys) = foldl (++) (foldl (++) m0 xs) ys" by simp
  also have "\<dots> = foldl (++) m0 xs ++ foldl (++) Map.empty ys"
    by (rule foldl_map_add_start)
  finally show ?thesis .
qed

lemma dom_foldl_map_add:
  "dom (foldl (++) m0 ms) = dom m0 \<union> (\<Union>m \<in> set ms. dom m)"
  by (induction ms arbitrary: m0) auto

lemma foldl_map_add_later_none:
  "\<forall>m \<in> set ms. m k = None \<Longrightarrow> foldl (++) m0 ms k = m0 k"
  by (induction ms arbitrary: m0) (simp_all add: map_add_def)

lemma foldl_map_add_last:
  assumes "m k = Some v" and "\<forall>m' \<in> set later. m' k = None"
  shows "foldl (++) m0 (earlier @ m # later) k = Some v"
proof -
  have "foldl (++) m0 (earlier @ m # later) k = foldl (++) (foldl (++) m0 earlier ++ m) later k"
    by simp
  also have "\<dots> = (foldl (++) m0 earlier ++ m) k"
    using assms(2) by (rule foldl_map_add_later_none)
  also have "\<dots> = Some v" using assms(1) by (simp add: map_add_def)
  finally show ?thesis .
qed

lemma str_replace1_prefix: "str_replace1 src dst (src @ rest) = dst @ rest"
proof (cases "src @ rest")
  case Nil
  then show ?thesis by simp
next
  case (Cons c cs)
  then have "str_replace1 src dst (src @ rest)
      = (if take (length src) (src @ rest) = src then dst @ drop (length src) (src @ rest)
         else c # str_replace1 src dst cs)"
    by simp
  then show ?thesis by simp
qed

lemma overlay_entries_alt:
  "overlay_entries e opts (src, dst) =
     concat (map (\<lambda>(rest, names).
                 map (\<lambda>y. (path_join (dst @ rest) y,
                           OnDisk (path_join (path_join (path opts) src @ rest) y)))
                   (filter realFile names))
              (walk e (followlinks opts) (path_join (path opts) src)))"
  by (simp add: overlay_entries_def Let_def str_replace1_prefix)

lemma overlay_entry_cases:
  assumes "(k, v) \<in> set (overlay_entries e opts (src, dst))"
  obtains rest names y where
    "(rest, names) \<in> set (walk e (followlinks opts) (path_join (path opts) src))"
    "y \<in> set names" "k = path_join (dst @ rest) y"
    "v = OnDisk (path_join (path_join (path opts) src @ rest) y)"
  using assms unfolding overlay_entries_alt by auto

lemma wf_walk_D:
  assumes "wf_walk e" and "(rest, names) \<in> set (walk e fl root)"
  shows "rest = [] \<or> last rest \<noteq> CHR ''/''" and "\<And>y. y \<in> set names \<Longrightarrow> y \<noteq> [] \<and> CHR ''/'' \<notin> set y"
  using assms unfolding wf_walk_def by blast+


lemma path_join_file:
  assumes "y \<noteq> []" and "CHR ''/'' \<notin> set y"
  shows "path_join a y = (if a = [] \<or> last a = CHR ''/'' then a else a @ ''/'') @ y"
proof -
  have "take 1 y \<noteq> ''/''" using assms by (cases y) auto
  then show ?thesis by (simp add: path_join_def)
qed

lemma overlay_key_prefix:
  assumes wf: "wf_walk e" and kv: "(k, v) \<in> set (overlay_entries e opts (src, dst))"
  shows "take (length dst) k = dst"
proof -
  from kv obtain rest names y where
    w: "(rest, names) \<in> set (walk e (followlinks opts) (path_join (path opts) src))"
    and y: "y \<in> set names" and k: "k = path_join (dst @ rest) y"
    by (rule overlay_entry_cases)
  have "y \<noteq> []" "CHR ''/'' \<notin> set y" using wf_walk_D(2) [OF wf w y] by simp_all
  then show ?thesis unfolding k by (simp add: path_join_file)
qed

lemma overlay_key_hd:
  assumes wf: "wf_walk e" and kv: "(k, v) \<in> set (overlay_entries e opts (src, dst))"
    and dst: "dst \<noteq> []"
  shows "k \<noteq> [] \<and> hd k = hd dst"
proof -
  have "take (length dst) k = dst" using wf kv by (rule overlay_key_prefix)
  with dst show ?thesis by (cases k; cases dst) auto
qed

lemma path_split_tail_no_sep: "CHR ''/'' \<notin> set (snd (path_split p))"
proof -
  have "\<forall>c \<in> set (takeWhile (\<lambda>c. c \<noteq> CHR ''/'') (rev p)). c \<noteq> CHR ''/''"
    by (auto dest: set_takeWhileD)
  then show ?thesis by (auto simp: path_split_def Let_def)
qed

lemma theme_dirs_dst: "d \<in> set (theme_dirs opts) \<Longrightarrow> snd d = ''.''"
  by (auto simp: theme_dirs_def)

lemma extfiles_dst:
  assumes "d \<in> set (extfiles e opts)"
  shows "snd d \<noteq> [] \<and> hd (snd d) = CHR ''e''"
proof -
  from assms obtain x where "snd d = path_join ''extensions'' (snd (path_split x))"
    by (auto simp: extfiles_def)
  moreover have "take 1 (snd (path_split x)) \<noteq> ''/''"
    using path_split_tail_no_sep [of x] by (cases "snd (path_split x)") auto
  ultimately show ?thesis by (simp add: path_join_def)
qed

lemma resource_dirs_dst:
  assumes "d \<in> set (resource_dirs e opts)"
  shows "snd d \<noteq> [] \<and> (hd (snd d) = CHR ''r'' \<or> hd (snd d) = CHR ''/'')"
proof -
  from assms obtain name where d: "snd d = path_join ''resources'' name"
    by (auto simp: resource_dirs_def)
  show ?thesis
  proof (cases "take 1 name = ''/''")
    case True
    then have "name \<noteq> []" "hd name = CHR ''/''" by (cases name; simp)+
    with True d show ?thesis by (simp add: path_join_def)
  next
    case False
    with d show ?thesis by (simp add: path_join_def)
  qed
qed

lemma dom_overlay_map: "dom (overlay_map e opts d) = fst ` set (overlay_entries e opts d)"
  by (simp add: overlay_map_def dom_map_of_conv_image_fst)

lemma overlay_map_hd:
  assumes wf: "wf_walk e" and k: "k \<in> dom (overlay_map e opts d)" and dst: "snd d \<noteq> []"
  shows "hd k = hd (snd d)"
proof -
  from k obtain v where "(k, v) \<in> set (overlay_entries e opts (fst d, snd d))"
    unfolding dom_overlay_map by auto
  from overlay_key_hd [OF wf this dst] show ?thesis by simp
qed

lemma resource_keys_apart:
  assumes wf: "wf_walk e" and r: "d1 \<in> set (resource_dirs e opts)"
    and o: "d2 \<in> set (extfiles e opts @ theme_dirs opts)"
  shows "dom (overlay_map e opts d1) \<inter> dom (overlay_map e opts d2) = {}"
proof (rule ccontr)
  assume "dom (overlay_map e opts d1) \<inter> dom (overlay_map e opts d2) \<noteq> {}"
  then obtain k where k1: "k \<in> dom (overlay_map e opts d1)"
    and k2: "k \<in> dom (overlay_map e opts d2)" by blast
  have 1: "hd k = CHR ''r'' \<or> hd k = CHR ''/''"
    using overlay_map_hd [OF wf k1] resource_dirs_dst [OF r] by auto
  have "snd d2 \<noteq> [] \<and> (hd (snd d2) = CHR ''e'' \<or> hd (snd d2) = CHR ''.'')"
    using o extfiles_dst [of d2 e opts] theme_dirs_dst [of d2 opts] by auto
  then have "hd k = CHR ''e'' \<or> hd k = CHR ''.''"
    using overlay_map_hd [OF wf k2] by auto
  with 1 show False by auto
qed

lemma overlay_groups_commute:
  assumes wf: "wf_walk e"
  shows "foldl (++) Map.empty (map (overlay_map e opts) (resource_dirs e opts))
           ++ foldl (++) Map.empty (map (overlay_map e opts) (extfiles e opts @ theme_dirs opts))
       = foldl (++) Map.empty (map (overlay_map e opts) (extfiles e opts @ theme_dirs opts))
           ++ foldl (++) Map.empty (map (overlay_map e opts) (resource_dirs e opts))"
proof (rule map_add_comm)
  show "dom (foldl (++) Map.empty (map (overlay_map e opts) (resource_dirs e opts)))
        \<inter> dom (foldl (++) Map.empty
                 (map (overlay_map e opts) (extfiles e opts @ theme_dirs opts))) = {}"
    unfolding dom_foldl_map_add using resource_keys_apart [OF wf] by fastforce
qed

text \<open>
  For keys compared as they are written the place of the resource directories in the
  order makes no difference: the order of the specification, with the resource
  directories last, gives the same table.
\<close>

lemma code_order_is_priority_order:
  assumes wf: "wf_walk e"
  shows "map_of (overlay_table e opts (extended_dirs e opts [(''runtime'', ''.'')]))
       = foldl (++) Map.empty (map (overlay_map e opts) (priority_order e opts))"
proof -
  let ?F = "\<lambda>ds. foldl (++) Map.empty (map (overlay_map e opts) ds)"
  have "map_of (overlay_table e opts (extended_dirs e opts [(''runtime'', ''.'')]))
      = ?F ([(''runtime'', ''.'')] @ resource_dirs e opts @ (extfiles e opts @ theme_dirs opts))"
    by (simp add: map_of_overlay_table extended_dirs_def)
  also have "\<dots> = ?F [(''runtime'', ''.'')]
                   ++ (?F (resource_dirs e opts) ++ ?F (extfiles e opts @ theme_dirs opts))"
    by (simp only: map_append foldl_map_add_append [of Map.empty])
  also have "\<dots> = ?F [(''runtime'', ''.'')]
                   ++ (?F (extfiles e opts @ theme_dirs opts) ++ ?F (resource_dirs e opts))"
    by (simp only: overlay_groups_commute [OF wf])
  also have "\<dots> = ?F ([(''runtime'', ''.'')] @ (extfiles e opts @ theme_dirs opts)
                        @ resource_dirs e opts)"
    by (simp only: map_append foldl_map_add_append [of Map.empty])
  finally show ?thesis by (simp add: priority_order_def)
qed


lemma last_sep_tail:
  assumes "u = [] \<or> last u = CHR ''/''" and "CHR ''/'' \<notin> set y"
  shows "takeWhile (\<lambda>c. c \<noteq> CHR ''/'') (rev (u @ y)) = rev y"
proof -
  have "takeWhile (\<lambda>c. c \<noteq> CHR ''/'') (rev y @ rev u)
          = rev y @ takeWhile (\<lambda>c. c \<noteq> CHR ''/'') (rev u)"
    by (rule takeWhile_append2) (use assms(2) in auto)
  moreover have "takeWhile (\<lambda>c. c \<noteq> CHR ''/'') (rev u) = []"
  proof (cases "u = []")
    case True
    then show ?thesis by simp
  next
    case False
    with assms(1) have "hd (rev u) = CHR ''/''" by (simp add: hd_rev)
    moreover from False have "rev u \<noteq> []" by simp
    ultimately show ?thesis by (cases "rev u") auto
  qed
  ultimately show ?thesis by simp
qed

lemma path_join_file_inj:
  assumes y1: "y1 \<noteq> []" "CHR ''/'' \<notin> set y1" and y2: "y2 \<noteq> []" "CHR ''/'' \<notin> set y2"
    and r1: "r1 = [] \<or> last r1 \<noteq> CHR ''/''" and r2: "r2 = [] \<or> last r2 \<noteq> CHR ''/''"
    and eq: "path_join (dst @ r1) y1 = path_join (dst @ r2) y2"
  shows "r1 = r2 \<and> y1 = y2"
proof -
  define pre where "pre a = (if a = [] \<or> last a = CHR ''/'' then a else a @ ''/'')"
    for a :: string
  have pre: "pre a = [] \<or> last (pre a) = CHR ''/''" for a by (simp add: pre_def)
  have e: "pre (dst @ r1) @ y1 = pre (dst @ r2) @ y2"
    using eq path_join_file [OF y1] path_join_file [OF y2] by (simp add: pre_def)
  have "rev y1 = rev y2"
    using last_sep_tail [OF pre y1(2), of "dst @ r1"] last_sep_tail [OF pre y2(2), of "dst @ r2"] e
    by simp
  then have y: "y1 = y2" by simp
  with e have p: "pre (dst @ r1) = pre (dst @ r2)" by simp
  have plain: "pre a = a" if "a = [] \<or> last a = CHR ''/''" for a
    using that by (simp only: pre_def if_True)
  have nonplain: "pre a = a @ ''/''" if "\<not> (a = [] \<or> last a = CHR ''/'')" for a
    using that by (simp only: pre_def if_False)
  have "r1 = r2"
  proof (cases "dst @ r1 = [] \<or> last (dst @ r1) = CHR ''/''")
    case plain1: True
    show ?thesis
    proof (cases "dst @ r2 = [] \<or> last (dst @ r2) = CHR ''/''")
      case True
      from p have "dst @ r1 = dst @ r2" by (simp only: plain [OF plain1] plain [OF True])
      then show ?thesis by simp
    next
      case False
      from p have "dst @ r1 = (dst @ r2) @ ''/''"
        by (simp only: plain [OF plain1] nonplain [OF False])
      then have "r1 = r2 @ ''/''" by simp
      with r1 show ?thesis by simp
    qed
  next
    case nonplain1: False
    show ?thesis
    proof (cases "dst @ r2 = [] \<or> last (dst @ r2) = CHR ''/''")
      case True
      from p have "(dst @ r1) @ ''/'' = dst @ r2"
        by (simp only: nonplain [OF nonplain1] plain [OF True])
      then have "r2 = r1 @ ''/''" by simp
      with r2 show ?thesis by simp
    next
      case False
      from p have "(dst @ r1) @ ''/'' = (dst @ r2) @ ''/''"
        by (simp only: nonplain [OF nonplain1] nonplain [OF False])
      then show ?thesis by simp
    qed
  qed
  with y show ?thesis by simp
qed

lemma overlay_entries_functional:
  assumes wf: "wf_walk e"
    and 1: "(k, v) \<in> set (overlay_entries e opts d)"
    and 2: "(k, v') \<in> set (overlay_entries e opts d)"
  shows "v' = v"
proof -
  obtain src dst where d: "d = (src, dst)" by (cases d)
  from 1 [unfolded d] obtain r1 n1 y1 where
    w1: "(r1, n1) \<in> set (walk e (followlinks opts) (path_join (path opts) src))"
    and y1: "y1 \<in> set n1" and k1: "k = path_join (dst @ r1) y1"
    and v1: "v = OnDisk (path_join (path_join (path opts) src @ r1) y1)"
    by (rule overlay_entry_cases)
  from 2 [unfolded d] obtain r2 n2 y2 where
    w2: "(r2, n2) \<in> set (walk e (followlinks opts) (path_join (path opts) src))"
    and y2: "y2 \<in> set n2" and k2: "k = path_join (dst @ r2) y2"
    and v2: "v' = OnDisk (path_join (path_join (path opts) src @ r2) y2)"
    by (rule overlay_entry_cases)
  have "r1 = r2 \<and> y1 = y2"
  proof (rule path_join_file_inj)
    show "y1 \<noteq> []" "CHR ''/'' \<notin> set y1" using wf_walk_D(2) [OF wf w1 y1] by simp_all
    show "y2 \<noteq> []" "CHR ''/'' \<notin> set y2" using wf_walk_D(2) [OF wf w2 y2] by simp_all
    show "r1 = [] \<or> last r1 \<noteq> CHR ''/''" using wf w1 by (rule wf_walk_D(1))
    show "r2 = [] \<or> last r2 \<noteq> CHR ''/''" using wf w2 by (rule wf_walk_D(1))
    show "path_join (dst @ r1) y1 = path_join (dst @ r2) y2" using k1 k2 by simp
  qed
  with v1 v2 show ?thesis by simp
qed

lemma overlay_map_entry:
  assumes wf: "wf_walk e" and kv: "(k, v) \<in> set (overlay_entries e opts d)"
  shows "overlay_map e opts d k = Some v"
proof -
  have "k \<in> dom (overlay_map e opts d)" unfolding dom_overlay_map using kv by force
  then obtain v' where m: "overlay_map e opts d k = Some v'" by blast
  then have "(k, v') \<in> set (overlay_entries e opts d)"
    unfolding overlay_map_def by (auto dest: map_of_SomeD)
  from overlay_entries_functional [OF wf kv this] m show ?thesis by simp
qed

text \<open>
  Claim C1, as the code has it, for the first call of \<^verbatim>\<open>collectFiles\<close> in a process
  (the default list holds the runtime pair only). The overlays are applied in the order
  in which \<^verbatim>\<open>collectFiles\<close> appends them: the runtime root, the directory-valued
  resources in declaration order, the extension roots in declaration order, the theme
  chain from the most basic theme to the requested one. Take an entry \<open>(k, v)\<close> of the
  overlay at position \<open>j\<close> of this list, and suppose no overlay after position \<open>j\<close>
  has an entry with the key \<open>k\<close>, keys being compared as they are written: then the
  table the overlays leave holds \<open>v\<close> at \<open>k\<close>, whatever the overlays before \<open>j\<close>
  have there and whatever the walk order inside each overlay. File-valued resources are
  written after all overlays: the table \<^verbatim>\<open>collectFiles\<close> returns holds \<open>v\<close> at \<open>k\<close>
  unless a file-valued resource has the key \<open>k\<close>, and then it holds the file of the
  last such resource.
\<close>

theorem later_applied_overlay_wins:
  assumes wf: "wf_walk e"
    and j: "j < length (extended_dirs e opts [(''runtime'', ''.'')])"
    and kv: "(k, v) \<in> set (overlay_entries e opts (extended_dirs e opts [(''runtime'', ''.'')] ! j))"
    and later: "\<forall>d \<in> set (drop (Suc j) (extended_dirs e opts [(''runtime'', ''.'')])).
                  k \<notin> fst ` set (overlay_entries e opts d)"
  shows "extended_dirs e opts [(''runtime'', ''.'')]
           = (''runtime'', ''.'') # resource_dirs e opts @ extfiles e opts @ theme_dirs opts
         \<and> map_of (overlay_table e opts (extended_dirs e opts [(''runtime'', ''.'')])) k = Some v
         \<and> map_of (fst (collectFiles e opts [(''runtime'', ''.'')])) k
             = (case map_of (rev (file_resources e opts)) k of None \<Rightarrow> Some v | Some r \<Rightarrow> Some r)"
proof -
  let ?L = "extended_dirs e opts [(''runtime'', ''.'')]"
  have L: "?L = take j ?L @ ?L ! j # drop (Suc j) ?L" using j by (rule id_take_nth_drop)
  have m: "overlay_map e opts (?L ! j) k = Some v" using wf kv by (rule overlay_map_entry)
  have n: "\<forall>m' \<in> set (map (overlay_map e opts) (drop (Suc j) ?L)). m' k = None"
    using later by (auto simp: dom_overlay_map [symmetric] domIff)
  have "map (overlay_map e opts) ?L
          = map (overlay_map e opts) (take j ?L) @ overlay_map e opts (?L ! j)
              # map (overlay_map e opts) (drop (Suc j) ?L)"
    by (subst L) simp
  then have "foldl (++) Map.empty (map (overlay_map e opts) ?L) k = Some v"
    using foldl_map_add_last [of "overlay_map e opts (?L ! j)" k v
        "map (overlay_map e opts) (drop (Suc j) ?L)" Map.empty
        "map (overlay_map e opts) (take j ?L)", OF m n]
    by simp
  then have t: "map_of (overlay_table e opts ?L) k = Some v"
    by (simp add: map_of_overlay_table)
  have c: "map_of (fst (collectFiles e opts [(''runtime'', ''.'')])) k
        = (case map_of (rev (file_resources e opts)) k of None \<Rightarrow> Some v | Some r \<Rightarrow> Some r)"
    using t
    by (simp add: collectFiles_def Let_def map_of_dict_update map_add_def split: option.splits)
  have o: "?L = (''runtime'', ''.'') # resource_dirs e opts @ extfiles e opts @ theme_dirs opts"
    by (simp add: extended_dirs_def)
  from o t c show ?thesis by simp
qed

lemma demo_wf_walk: "wf_walk demo_env"
  by (auto simp: wf_walk_def demo_env_def demo_walk_def split: if_splits)

theorem later_applied_overlay_wins_witness:
  "wf_walk demo_env
   \<and> extended_dirs demo_env demo_options [(''runtime'', ''.'')]
       = [(''runtime'', ''.''), (''/w/pics'', ''resources/pics''),
          (''/n/extensions/geo'', ''extensions/geo''), (''/n/themes/B/files'', ''.''),
          (''/n/themes/A/files'', ''.''), (''/n/themes/R/files'', ''.'')]
   \<and> (''./index.html'', OnDisk ''/n/runtime/index.html'')
        \<in> set (overlay_entries demo_env demo_options (''runtime'', ''.''))
   \<and> (''./index.html'', OnDisk ''/n/themes/A/files/index.html'')
        \<in> set (overlay_entries demo_env demo_options (''/n/themes/A/files'', ''.''))
   \<and> (''./index.html'', OnDisk ''/n/themes/R/files/index.html'')
        \<in> set (overlay_entries demo_env demo_options (''/n/themes/R/files'', ''.''))
   \<and> map_of (fst (collectFiles demo_env demo_options [(''runtime'', ''.'')])) ''./index.html''
       = Some (OnDisk ''/n/themes/R/files/index.html'')
   \<and> map_of (fst (collectFiles demo_env demo_options [(''runtime'', ''.'')]))
         ''resources/pics/cat.png''
       = Some (OnDisk ''/w/pics/cat.png'')"
proof -
  let ?L = "extended_dirs demo_env demo_options [(''runtime'', ''.'')]"
  have j: "5 < length ?L" "1 < length ?L" by (simp_all add: demo_dirs)
  have n: "?L ! 5 = (''/n/themes/R/files'', ''.'')" "?L ! 1 = (''/w/pics'', ''resources/pics'')"
    by (simp_all add: demo_dirs)
  have kv: "(''./index.html'', OnDisk ''/n/themes/R/files/index.html'')
        \<in> set (overlay_entries demo_env demo_options (?L ! 5))"
    by (simp add: n demo_overlays)
  have kr: "(''resources/pics/cat.png'', OnDisk ''/w/pics/cat.png'')
        \<in> set (overlay_entries demo_env demo_options (?L ! 1))"
    by (simp add: demo_dirs demo_overlays)
  have later: "\<forall>d \<in> set (drop (Suc 5) ?L).
                  ''./index.html'' \<notin> fst ` set (overlay_entries demo_env demo_options d)"
    by (simp add: demo_dirs)
  have later_r: "\<forall>d \<in> set (drop (Suc 1) ?L).
                  ''resources/pics/cat.png'' \<notin> fst ` set (overlay_entries demo_env demo_options d)"
    by (simp add: demo_dirs demo_overlays)
  have fr: "map_of (rev (file_resources demo_env demo_options)) k = None" for k
    by (simp add: demo_file_resources)
  have m: "(''./index.html'', OnDisk ''/n/runtime/index.html'')
        \<in> set (overlay_entries demo_env demo_options (''runtime'', ''.''))"
    "(''./index.html'', OnDisk ''/n/themes/A/files/index.html'')
        \<in> set (overlay_entries demo_env demo_options (''/n/themes/A/files'', ''.''))"
    "(''./index.html'', OnDisk ''/n/themes/R/files/index.html'')
        \<in> set (overlay_entries demo_env demo_options (''/n/themes/R/files'', ''.''))"
    by (simp_all add: demo_overlays)
  from later_applied_overlay_wins [OF demo_wf_walk j(1) kv later]
    later_applied_overlay_wins [OF demo_wf_walk j(2) kr later_r]
    demo_wf_walk m demo_dirs
  show ?thesis by (simp add: fr)
qed

text \<open>
  The table compares destination paths as they are written. A theme file under
  \<^verbatim>\<open>files/resources/pics\<close> gets a key that starts with \<^verbatim>\<open>./\<close>, the file of the same name
  in the resource directory \<^verbatim>\<open>pics\<close> a key that does not: the two entries do not
  collide, the table keeps both, in the order in which \<^verbatim>\<open>collectFiles\<close> applies the
  overlays, and the archive writer gives both the same entry name.
\<close>

lemma respelled_keys_both_stay:
  "fst (collectFiles demo_env respell_options [(''runtime'', ''.'')]) =
    [(''./index.html'', OnDisk ''/n/runtime/index.html''),
     (''./scripts/jme.js'', OnDisk ''/n/runtime/scripts/jme.js''),
     (''./scripts/numbas.js'', OnDisk ''/n/runtime/scripts/numbas.js''),
     (''resources/pics/cat.png'', OnDisk ''/w/pics/cat.png''),
     (''extensions/geo/geo.js'', OnDisk ''/n/extensions/geo/geo.js''),
     (''./resources/pics/cat.png'', OnDisk ''/n/themes/U/files/resources/pics/cat.png'')]
   \<and> cleanpath ''./resources/pics/cat.png'' = Some ''resources/pics/cat.png''
   \<and> cleanpath ''resources/pics/cat.png'' = Some ''resources/pics/cat.png''"
proof -
  have d: "extended_dirs demo_env respell_options [(''runtime'', ''.'')] =
    [(''runtime'', ''.''), (''/w/pics'', ''resources/pics''),
     (''/n/extensions/geo'', ''extensions/geo''), (''/n/themes/U/files'', ''.'')]"
    by (simp add: extended_dirs_def resource_dirs_def resource_pairs_def extfiles_def
        theme_dirs_def path_join_def path_join3_def path_split_def rstrip_sep_def demo_env_def
        respell_options_def demo_options_def)
  have o: "overlay_entries demo_env respell_options (''runtime'', ''.'') =
       [(''./index.html'', OnDisk ''/n/runtime/index.html''),
        (''./scripts/jme.js'', OnDisk ''/n/runtime/scripts/jme.js''),
        (''./scripts/numbas.js'', OnDisk ''/n/runtime/scripts/numbas.js'')]"
    "overlay_entries demo_env respell_options (''/w/pics'', ''resources/pics'') =
       [(''resources/pics/cat.png'', OnDisk ''/w/pics/cat.png'')]"
    "overlay_entries demo_env respell_options (''/n/extensions/geo'', ''extensions/geo'') =
       [(''extensions/geo/geo.js'', OnDisk ''/n/extensions/geo/geo.js'')]"
    "overlay_entries demo_env respell_options (''/n/themes/U/files'', ''.'') =
       [(''./resources/pics/cat.png'', OnDisk ''/n/themes/U/files/resources/pics/cat.png'')]"
    by (simp_all add: overlay_entries_def path_join_def realFile_def demo_env_def
        respell_options_def demo_options_def demo_walk_def Let_def)
  have fr: "file_resources demo_env respell_options = []"
    by (simp add: file_resources_def resource_pairs_def demo_env_def respell_options_def
        demo_options_def)
  have t: "fst (collectFiles demo_env respell_options [(''runtime'', ''.'')]) =
    [(''./index.html'', OnDisk ''/n/runtime/index.html''),
     (''./scripts/jme.js'', OnDisk ''/n/runtime/scripts/jme.js''),
     (''./scripts/numbas.js'', OnDisk ''/n/runtime/scripts/numbas.js''),
     (''resources/pics/cat.png'', OnDisk ''/w/pics/cat.png''),
     (''extensions/geo/geo.js'', OnDisk ''/n/extensions/geo/geo.js''),
     (''./resources/pics/cat.png'', OnDisk ''/n/themes/U/files/resources/pics/cat.png'')]"
    by (simp add: collectFiles_def d overlay_table_def o fr dict_update_def dict_set_def Let_def)
  have c: "cleanpath ''./resources/pics/cat.png'' = Some ''resources/pics/cat.png''"
    "cleanpath ''resources/pics/cat.png'' = Some ''resources/pics/cat.png''"
    by (simp_all add: cleanpath.simps path_split_def path_join_def rstrip_sep_def)
  from t c show ?thesis by simp
qed

lemma respell_collect:
  "fst (collectFiles demo_env respell_options [(''runtime'', ''.'')]) =
    [(''./index.html'', OnDisk ''/n/runtime/index.html''),
     (''./scripts/jme.js'', OnDisk ''/n/runtime/scripts/jme.js''),
     (''./scripts/numbas.js'', OnDisk ''/n/runtime/scripts/numbas.js''),
     (''resources/pics/cat.png'', OnDisk ''/w/pics/cat.png''),
     (''extensions/geo/geo.js'', OnDisk ''/n/extensions/geo/geo.js''),
     (''./resources/pics/cat.png'', OnDisk ''/n/themes/U/files/resources/pics/cat.png'')]"
  using respelled_keys_both_stay by simp

lemma respell_fields:
  "parse_exam demo_env = Some demo_exam" "locale_script demo_env = Some ''locale''"
  "xml2js demo_env = ''settings''"
  "\<not> scorm respell_options" "zip_opt respell_options"
  "respell_options\<lparr>resources := exam_resources demo_exam,
                    extensions := exam_extensions demo_exam\<rparr> = respell_options"
  "numbas_loader_path respell_options = ''/n/runtime/scripts/numbas.js''"
  "minify respell_options = ''/bin/false''"
  by (simp_all add: demo_env_def respell_options_def demo_options_def demo_exam_def
      numbas_loader_path_def path_join4_def path_join_def)

lemma ext_of_respell: "ext_of ''./resources/pics/cat.png'' = ''.png''"
  by (simp add: ext_of_def path_splitext_def Let_def)

lemma respell_makeExam_files:
  "makeExam_files demo_env respell_options initial_module_state =
   Some (Inr ([(''./index.html'', OnDisk ''/n/runtime/index.html''),
         (''resources/pics/cat.png'', OnDisk ''/w/pics/cat.png''),
         (''./resources/pics/cat.png'', OnDisk ''/n/themes/U/files/resources/pics/cat.png''),
         (''./styles.css'', InMemory []),
         (''./scripts.js'', InMemory (''</n/runtime/scripts/numbas.js>'' @ newline
            @ ''</n/runtime/scripts/jme.js>'' @ newline @ ''</n/extensions/geo/geo.js>''
            @ newline @ ''settings'' @ newline @ ''locale''))], None))"
proof -
  have d: "default_dirs initial_module_state = [(''runtime'', ''.'')]"
    by (simp add: initial_module_state_def)
  have c: "fst (collectFiles_default demo_env respell_options initial_module_state)
      = fst (collectFiles demo_env respell_options [(''runtime'', ''.'')])"
    by (simp add: collectFiles_default_def d split_beta)
  have i: "inject_generated demo_env ''locale''
     (fst (collectFiles demo_env respell_options [(''runtime'', ''.'')])) =
    [(''./index.html'', OnDisk ''/n/runtime/index.html''),
     (''./scripts/jme.js'', OnDisk ''/n/runtime/scripts/jme.js''),
     (''./scripts/numbas.js'', OnDisk ''/n/runtime/scripts/numbas.js''),
     (''resources/pics/cat.png'', OnDisk ''/w/pics/cat.png''),
     (''extensions/geo/geo.js'', OnDisk ''/n/extensions/geo/geo.js''),
     (''./resources/pics/cat.png'', OnDisk ''/n/themes/U/files/resources/pics/cat.png''),
     (''./settings.js'', InMemory ''settings''),
     (''./locale.js'', InMemory ''locale'')]"
    by (simp add: inject_generated_def respell_collect dict_set_def path_join_def respell_fields)
  have f: "finish_files demo_env respell_options
     (inject_generated demo_env ''locale''
        (fst (collectFiles demo_env respell_options [(''runtime'', ''.'')])), None) =
   Inr ([(''./index.html'', OnDisk ''/n/runtime/index.html''),
         (''resources/pics/cat.png'', OnDisk ''/w/pics/cat.png''),
         (''./resources/pics/cat.png'', OnDisk ''/n/themes/U/files/resources/pics/cat.png''),
         (''./styles.css'', InMemory []),
         (''./scripts.js'', InMemory (''</n/runtime/scripts/numbas.js>'' @ newline
            @ ''</n/runtime/scripts/jme.js>'' @ newline @ ''</n/extensions/geo/geo.js>''
            @ newline @ ''settings'' @ newline @ ''locale''))], None)"
    by (simp add: finish_files_def aggregate_def merge_stylesheets_def merge_javascripts_def
      minify_files_def i ext_of_demo_keys ext_of_respell dict_del_def dict_set_def merged_paths
      read_source_def demo_read_text respell_fields Let_def)
  show ?thesis
    unfolding makeExam_files_def respell_fields(1,2) option.case Let_def respell_fields(6)
    using respell_fields(4) by (simp only: c f if_False)
qed

lemma respell_archive:
  "makeExam demo_env respell_options initial_module_state st =
       Some (Inr (Archive
         [\<lparr>filename = ''index.html'', external_attr = 27525120,
            data = ''</n/runtime/index.html>''\<rparr>,
          \<lparr>filename = ''resources/pics/cat.png'', external_attr = 27525120,
            data = ''</w/pics/cat.png>''\<rparr>,
          \<lparr>filename = ''resources/pics/cat.png'', external_attr = 27525120,
            data = ''</n/themes/U/files/resources/pics/cat.png>''\<rparr>,
          \<lparr>filename = ''styles.css'', external_attr = 27525120, data = []\<rparr>,
          \<lparr>filename = ''scripts.js'', external_attr = 27525120,
            data = ''</n/runtime/scripts/numbas.js>'' @ newline @ ''</n/runtime/scripts/jme.js>''
              @ newline @ ''</n/extensions/geo/geo.js>'' @ newline @ ''settings'' @ newline
              @ ''locale''\<rparr>]))"
proof -
  have c: "cleanpath ''./index.html'' = Some ''index.html''"
    "cleanpath ''resources/pics/cat.png'' = Some ''resources/pics/cat.png''"
    "cleanpath ''./resources/pics/cat.png'' = Some ''resources/pics/cat.png''"
    "cleanpath ''./styles.css'' = Some ''styles.css''"
    "cleanpath ''./scripts.js'' = Some ''scripts.js''"
    by (simp_all add: cleanpath.simps path_split_def rstrip_sep_def path_join_def)
  show ?thesis
    by (simp add: makeExam_def respell_makeExam_files respell_fields c read_binary_def
        demo_read_bytes)
qed

lemma respell_priority_order:
  "priority_order demo_env respell_options =
     [(''runtime'', ''.''), (''/n/extensions/geo'', ''extensions/geo''),
      (''/n/themes/U/files'', ''.''), (''/w/pics'', ''resources/pics'')]"
  by (simp add: priority_order_def resource_dirs_def resource_pairs_def extfiles_def
      theme_dirs_def path_join_def path_join3_def path_split_def rstrip_sep_def demo_env_def
      respell_options_def demo_options_def)

lemma respell_overlays:
  "overlay_entries demo_env respell_options (''/w/pics'', ''resources/pics'') =
       [(''resources/pics/cat.png'', OnDisk ''/w/pics/cat.png'')]"
  "overlay_entries demo_env respell_options (''/n/themes/U/files'', ''.'') =
       [(''./resources/pics/cat.png'', OnDisk ''/n/themes/U/files/resources/pics/cat.png'')]"
  by (simp_all add: overlay_entries_def path_join_def realFile_def demo_env_def
      respell_options_def demo_options_def demo_walk_def Let_def)

lemma normpath_respelled:
  "path_normpath ''./resources/pics/cat.png'' = ''resources/pics/cat.png''"
  "path_normpath ''resources/pics/cat.png'' = ''resources/pics/cat.png''"
  by code_simp+

text \<open>
  Claim C1 puts the resource directories last, above the themes. Build the small
  installation with the theme \<^verbatim>\<open>U\<close> and the resource directory \<^verbatim>\<open>pics\<close>: the theme
  and the resource directory both bring a file for the destination
  \<^verbatim>\<open>resources/pics/cat.png\<close>, the theme under the key \<^verbatim>\<open>./resources/pics/cat.png\<close>. In
  the order of the claim the resource directory comes after the theme and its file should
  win. It does not: the theme's entry stays in the table, after the resource directory's,
  and the archive gets two members of that name, the theme's file last.
\<close>

theorem resource_directory_not_last_counterexample:
  "priority_order demo_env respell_options ! 2 = (''/n/themes/U/files'', ''.'')
   \<and> priority_order demo_env respell_options ! 3 = (''/w/pics'', ''resources/pics'')
   \<and> (''./resources/pics/cat.png'', OnDisk ''/n/themes/U/files/resources/pics/cat.png'')
        \<in> set (overlay_entries demo_env respell_options (priority_order demo_env respell_options ! 2))
   \<and> (''resources/pics/cat.png'', OnDisk ''/w/pics/cat.png'')
        \<in> set (overlay_entries demo_env respell_options (priority_order demo_env respell_options ! 3))
   \<and> path_normpath ''./resources/pics/cat.png'' = path_normpath ''resources/pics/cat.png''
   \<and> fst (collectFiles demo_env respell_options [(''runtime'', ''.'')]) =
        [(''./index.html'', OnDisk ''/n/runtime/index.html''),
         (''./scripts/jme.js'', OnDisk ''/n/runtime/scripts/jme.js''),
         (''./scripts/numbas.js'', OnDisk ''/n/runtime/scripts/numbas.js''),
         (''resources/pics/cat.png'', OnDisk ''/w/pics/cat.png''),
         (''extensions/geo/geo.js'', OnDisk ''/n/extensions/geo/geo.js''),
         (''./resources/pics/cat.png'', OnDisk ''/n/themes/U/files/resources/pics/cat.png'')]
   \<and> makeExam demo_env respell_options initial_module_state Map.empty =
       Some (Inr (Archive
         [\<lparr>filename = ''index.html'', external_attr = 27525120,
            data = ''</n/runtime/index.html>''\<rparr>,
          \<lparr>filename = ''resources/pics/cat.png'', external_attr = 27525120,
            data = ''</w/pics/cat.png>''\<rparr>,
          \<lparr>filename = ''resources/pics/cat.png'', external_attr = 27525120,
            data = ''</n/themes/U/files/resources/pics/cat.png>''\<rparr>,
          \<lparr>filename = ''styles.css'', external_attr = 27525120, data = []\<rparr>,
          \<lparr>filename = ''scripts.js'', external_attr = 27525120,
            data = ''</n/runtime/scripts/numbas.js>'' @ newline @ ''</n/runtime/scripts/jme.js>''
              @ newline @ ''</n/extensions/geo/geo.js>'' @ newline @ ''settings'' @ newline
              @ ''locale''\<rparr>]))"
  by (simp add: respell_priority_order respell_overlays normpath_respelled respell_collect
      respell_archive)

section \<open>collectFiles: a second call in the same process\<close>

text \<open>
  What the shared default list does to a second build: built after the theme \<^verbatim>\<open>R\<close>,
  the build with the theme \<^verbatim>\<open>T\<close> alone still gets the style sheet of \<^verbatim>\<open>A\<close>, which a
  fresh process would not collect.
\<close>

lemma override_overlay_entries:
  "overlay_entries demo_env override_options d = overlay_entries demo_env demo_options d"
  by (simp add: overlay_entries_def override_options_def)

lemma override_theme_overlay:
  "overlay_entries demo_env demo_options (''/n/themes/T/files'', ''.'') =
     [(''./scripts/numbas.js'', OnDisk ''/n/themes/T/files/scripts/numbas.js'')]"
  by (simp add: overlay_entries_def path_join_def realFile_def demo_env_def demo_options_def
      demo_walk_def Let_def)

lemma override_groups:
  "resource_dirs demo_env override_options = [(''/w/pics'', ''resources/pics'')]"
  "extfiles demo_env override_options = [(''/n/extensions/geo'', ''extensions/geo'')]"
  "theme_dirs override_options = [(''/n/themes/T/files'', ''.'')]"
  "file_resources demo_env override_options = []"
  by (simp_all add: resource_dirs_def resource_pairs_def extfiles_def theme_dirs_def
      file_resources_def path_join_def path_join3_def path_split_def rstrip_sep_def demo_env_def
      override_options_def demo_options_def)

lemma stale_default_overlays_example:
  "map_of (fst (collectFiles_default demo_env override_options
                  (snd (collectFiles_default demo_env demo_options initial_module_state))))
     ''./a.css'' = Some (OnDisk ''/n/themes/A/files/a.css'')
   \<and> map_of (fst (collectFiles_default demo_env override_options initial_module_state))
       ''./a.css'' = None"
proof -
  have d: "default_dirs initial_module_state = [(''runtime'', ''.'')]"
    by (simp add: initial_module_state_def)
  have first: "default_dirs (snd (collectFiles_default demo_env demo_options initial_module_state))
      = [(''runtime'', ''.''), (''/w/pics'', ''resources/pics''),
         (''/n/extensions/geo'', ''extensions/geo''),
         (''/n/themes/B/files'', ''.''), (''/n/themes/A/files'', ''.''),
         (''/n/themes/R/files'', ''.'')]"
    by (simp add: collectFiles_default_def collectFiles_def Let_def d demo_dirs)
  have 1: "map_of (fst (collectFiles_default demo_env override_options
                  (snd (collectFiles_default demo_env demo_options initial_module_state))))
     ''./a.css'' = Some (OnDisk ''/n/themes/A/files/a.css'')"
    by (simp add: collectFiles_default_def [of demo_env override_options] split_beta first
        collectFiles_def Let_def extended_dirs_def override_groups overlay_table_def
        override_overlay_entries demo_overlays override_theme_overlay dict_update_def
        dict_set_def)
  have 2: "map_of (fst (collectFiles_default demo_env override_options initial_module_state))
       ''./a.css'' = None"
    by (simp add: collectFiles_default_def split_beta d override_collect)
  from 1 2 show ?thesis by simp
qed

section \<open>The loader collected under a second key\<close>

lemma twice_fields:
  "parse_exam twice_env = Some twice_exam" "locale_script twice_env = Some ''locale''"
  "xml2js twice_env = ''settings''"
  "\<not> scorm twice_options" "zip_opt twice_options"
  "twice_options\<lparr>resources := exam_resources twice_exam,
                  extensions := exam_extensions twice_exam\<rparr> = twice_options"
  "numbas_loader_path twice_options = ''/n/runtime/scripts/numbas.js''"
  "read_text twice_env q = Some (''<'' @ q @ ''>'')"
  "read_bytes twice_env q = Some (''<'' @ q @ ''>'')"
  by (simp_all add: twice_env_def twice_exam_def twice_options_def override_options_def
      demo_env_def demo_options_def demo_exam_def numbas_loader_path_def path_join4_def
      path_join_def)

lemma twice_overlays:
  "overlay_entries twice_env twice_options (''runtime'', ''.'') =
       [(''./index.html'', OnDisk ''/n/runtime/index.html''),
        (''./scripts/jme.js'', OnDisk ''/n/runtime/scripts/jme.js''),
        (''./scripts/numbas.js'', OnDisk ''/n/runtime/scripts/numbas.js'')]"
  "overlay_entries twice_env twice_options (''/w/pics'', ''resources/pics'') =
       [(''resources/pics/cat.png'', OnDisk ''/w/pics/cat.png'')]"
  "overlay_entries twice_env twice_options (''/n/extensions/geo'', ''extensions/geo'') =
       [(''extensions/geo/geo.js'', OnDisk ''/n/extensions/geo/geo.js'')]"
  "overlay_entries twice_env twice_options (''/n/themes/T/files'', ''.'') =
       [(''./scripts/numbas.js'', OnDisk ''/n/themes/T/files/scripts/numbas.js'')]"
  by (simp_all add: overlay_entries_def path_join_def realFile_def twice_env_def demo_env_def
      twice_options_def override_options_def demo_options_def demo_walk_def Let_def)

lemma twice_collect:
  "fst (collectFiles twice_env twice_options [(''runtime'', ''.'')]) =
    [(''./index.html'', OnDisk ''/n/runtime/index.html''),
     (''./scripts/jme.js'', OnDisk ''/n/runtime/scripts/jme.js''),
     (''./scripts/numbas.js'', OnDisk ''/n/themes/T/files/scripts/numbas.js''),
     (''resources/pics/cat.png'', OnDisk ''/w/pics/cat.png''),
     (''extensions/geo/geo.js'', OnDisk ''/n/extensions/geo/geo.js''),
     (''resources/boot.js'', OnDisk ''/n/runtime/scripts/numbas.js'')]"
proof -
  have d: "extended_dirs twice_env twice_options [(''runtime'', ''.'')] =
    [(''runtime'', ''.''), (''/w/pics'', ''resources/pics''),
     (''/n/extensions/geo'', ''extensions/geo''), (''/n/themes/T/files'', ''.'')]"
    by (simp add: extended_dirs_def resource_dirs_def resource_pairs_def extfiles_def
        theme_dirs_def path_join_def path_join3_def path_split_def rstrip_sep_def twice_env_def
        demo_env_def twice_options_def twice_exam_def override_options_def demo_options_def)
  have fr: "file_resources twice_env twice_options =
      [(''resources/boot.js'', OnDisk ''/n/runtime/scripts/numbas.js'')]"
    by (simp add: file_resources_def resource_pairs_def twice_env_def demo_env_def
        twice_options_def twice_exam_def override_options_def demo_options_def path_join_def)
  show ?thesis
    by (simp add: collectFiles_def d overlay_table_def twice_overlays fr dict_update_def
        dict_set_def Let_def)
qed

lemma ext_of_boot: "ext_of ''resources/boot.js'' = ''.js''"
  by (simp add: ext_of_def path_splitext_def Let_def)

lemma twice_makeExam_files:
  "makeExam_files twice_env twice_options initial_module_state =
   Some (Inr ([(''./index.html'', OnDisk ''/n/runtime/index.html''),
         (''resources/pics/cat.png'', OnDisk ''/w/pics/cat.png''),
         (''./styles.css'', InMemory []),
         (''./scripts.js'', InMemory (''</n/runtime/scripts/numbas.js>'' @ newline
            @ ''</n/runtime/scripts/jme.js>'' @ newline
            @ ''</n/themes/T/files/scripts/numbas.js>'' @ newline
            @ ''</n/extensions/geo/geo.js>'' @ newline @ ''settings'' @ newline
            @ ''locale''))], None))"
proof -
  have d: "default_dirs initial_module_state = [(''runtime'', ''.'')]"
    by (simp add: initial_module_state_def)
  have c: "fst (collectFiles_default twice_env twice_options initial_module_state)
      = fst (collectFiles twice_env twice_options [(''runtime'', ''.'')])"
    by (simp add: collectFiles_default_def d split_beta)
  have i: "inject_generated twice_env ''locale''
     (fst (collectFiles twice_env twice_options [(''runtime'', ''.'')])) =
    [(''./index.html'', OnDisk ''/n/runtime/index.html''),
     (''./scripts/jme.js'', OnDisk ''/n/runtime/scripts/jme.js''),
     (''./scripts/numbas.js'', OnDisk ''/n/themes/T/files/scripts/numbas.js''),
     (''resources/pics/cat.png'', OnDisk ''/w/pics/cat.png''),
     (''extensions/geo/geo.js'', OnDisk ''/n/extensions/geo/geo.js''),
     (''resources/boot.js'', OnDisk ''/n/runtime/scripts/numbas.js''),
     (''./settings.js'', InMemory ''settings''),
     (''./locale.js'', InMemory ''locale'')]"
    by (simp add: inject_generated_def twice_collect dict_set_def path_join_def twice_fields)
  have mn: "minify twice_options = ''/bin/false''"
    by (simp add: twice_options_def override_options_def demo_options_def)
  have f: "finish_files twice_env twice_options
     (inject_generated twice_env ''locale''
        (fst (collectFiles twice_env twice_options [(''runtime'', ''.'')])), None) =
   Inr ([(''./index.html'', OnDisk ''/n/runtime/index.html''),
         (''resources/pics/cat.png'', OnDisk ''/w/pics/cat.png''),
         (''./styles.css'', InMemory []),
         (''./scripts.js'', InMemory (''</n/runtime/scripts/numbas.js>'' @ newline
            @ ''</n/runtime/scripts/jme.js>'' @ newline
            @ ''</n/themes/T/files/scripts/numbas.js>'' @ newline
            @ ''</n/extensions/geo/geo.js>'' @ newline @ ''settings'' @ newline
            @ ''locale''))], None)"
    by (simp add: finish_files_def aggregate_def merge_stylesheets_def merge_javascripts_def
      minify_files_def i ext_of_demo_keys ext_of_boot dict_del_def dict_set_def merged_paths
      read_source_def twice_fields mn Let_def)
  show ?thesis
    unfolding makeExam_files_def twice_fields(1,2) option.case Let_def twice_fields(6)
    using twice_fields(4) by (simp only: c f if_False)
qed

text \<open>
  Claim C10 says that the merge fails in every build in which an overlay has replaced the
  entry at the loader's destination. Build the small installation with the theme \<^verbatim>\<open>T\<close>,
  which replaces that entry, for an exam that declares the runtime's loader as the
  file-valued resource \<^verbatim>\<open>boot.js\<close>: the merge finds the loader's path under the key
  \<^verbatim>\<open>resources/boot.js\<close>, and the build completes, the loader first in the merged
  script.
\<close>

theorem bootstrap_collected_twice_counterexample:
  "(bootstrap_dst, OnDisk (numbas_loader_path twice_options))
      \<in> set (overlay_entries twice_env twice_options (''runtime'', ''.''))
   \<and> (bootstrap_dst, OnDisk ''/n/themes/T/files/scripts/numbas.js'')
      \<in> set (overlay_entries twice_env twice_options (''/n/themes/T/files'', ''.''))
   \<and> map_of (fst (collectFiles twice_env twice_options [(''runtime'', ''.'')])) bootstrap_dst
       = Some (OnDisk ''/n/themes/T/files/scripts/numbas.js'')
   \<and> ''/n/themes/T/files/scripts/numbas.js'' \<noteq> numbas_loader_path twice_options
   \<and> map_of (fst (collectFiles twice_env twice_options [(''runtime'', ''.'')]))
         ''resources/boot.js''
       = Some (OnDisk (numbas_loader_path twice_options))
   \<and> makeExam_files twice_env twice_options initial_module_state =
       Some (Inr ([(''./index.html'', OnDisk ''/n/runtime/index.html''),
         (''resources/pics/cat.png'', OnDisk ''/w/pics/cat.png''),
         (''./styles.css'', InMemory []),
         (''./scripts.js'', InMemory (''</n/runtime/scripts/numbas.js>'' @ newline
            @ ''</n/runtime/scripts/jme.js>'' @ newline
            @ ''</n/themes/T/files/scripts/numbas.js>'' @ newline
            @ ''</n/extensions/geo/geo.js>'' @ newline @ ''settings'' @ newline
            @ ''locale''))], None))"
  by (simp add: twice_overlays twice_collect twice_fields bootstrap_dst_def twice_makeExam_files)

end
